theory Spec2Isabelle
  imports Main "HOL-Library.AList"
begin

section \<open>Values exchanged with the service\<close>

text \<open>
  \<open>reply.json()\<close> hands \<open>server.py\<close> decoded JSON: \<open>None\<close>, booleans, numbers, strings,
  lists and dicts with string keys. A dict is an association list in insertion order.
  Numbers are integers here; floating point values are not modelled. \<open>JNull\<close> is
  Python's \<open>None\<close>, also where an argument defaults to \<open>None\<close>.
\<close>

datatype json =
    JNull
  | JBool bool
  | JNum int
  | JStr string
  | JList "json list"
  | JObj "(string \<times> json) list"

text \<open>
  The exceptions that can cross \<open>server.py\<close>. \<open>SlackConnectionError\<close> carries the
  message it was built with (\<open>None\<close> for the bare \<open>raise SlackConnectionError\<close>);
  \<open>SSLError\<close> carries its \<open>errno\<close>; \<open>ExternalError\<close> is any other exception of a
  collaborator (requests, urllib3, websockets), with its text.
\<close>

datatype error =
    SlackConnectionError "string option"
  | SlackLoginError
  | KeyError string
  | TypeError
  | AttributeError
  | ValueError
  | InvalidStateError
  | SSLError "int option"
  | ExternalError string

text \<open>Truth value of a decoded value, as \<open>if login_data["ok"]:\<close> takes it.\<close>

fun truthy :: "json \<Rightarrow> bool" where
  "truthy JNull = False"
| "truthy (JBool b) = b"
| "truthy (JNum n) = (n \<noteq> 0)"
| "truthy (JStr s) = (s \<noteq> [])"
| "truthy (JList xs) = (xs \<noteq> [])"
| "truthy (JObj d) = (d \<noteq> [])"

text \<open>
  \<open>d[k]\<close> with a string key: \<open>KeyError\<close> on a dict without the key, \<open>TypeError\<close> on
  everything that is not a dict (\<open>None\<close> and numbers are not subscriptable, lists and
  strings take integer indices only).
\<close>

fun getitem :: "json \<Rightarrow> string \<Rightarrow> error + json" where
  "getitem (JObj d) k = (case map_of d k of Some v \<Rightarrow> Inr v | None \<Rightarrow> Inl (KeyError k))"
| "getitem JNull k = Inl TypeError"
| "getitem (JBool b) k = Inl TypeError"
| "getitem (JNum n) k = Inl TypeError"
| "getitem (JStr s) k = Inl TypeError"
| "getitem (JList xs) k = Inl TypeError"

text \<open>\<open>d[k] = v\<close> on a dict: the value is replaced in place, a new key goes last.\<close>

definition setitem :: "(string \<times> json) list \<Rightarrow> string \<Rightarrow> json \<Rightarrow> (string \<times> json) list" where
  "setitem d k v = AList.update k v d"

text \<open>\<open>k in d\<close> on a dict.\<close>

definition has_key :: "(string \<times> json) list \<Rightarrow> string \<Rightarrow> bool" where
  "has_key d k = (map_of d k \<noteq> None)"

text \<open>
  \<open>for x in v\<close>: a list yields its elements, a dict its keys, a string its characters;
  anything else is not iterable.
\<close>

fun py_iter :: "json \<Rightarrow> error + json list" where
  "py_iter (JList xs) = Inr xs"
| "py_iter (JObj d) = Inr (map (\<lambda>kv. JStr (fst kv)) d)"
| "py_iter (JStr s) = Inr (map (\<lambda>c. JStr [c]) s)"
| "py_iter JNull = Inl TypeError"
| "py_iter (JBool b) = Inl TypeError"
| "py_iter (JNum n) = Inl TypeError"

section \<open>Directory: users and channels\<close>

text \<open>
  Modelled from the spec: the classes \<open>User\<close> (user.py) and \<open>Channel\<close> (channel.py)
  are not among the sources. The spec gives a User an identifier, a display name, a
  real name and a timezone, and a Channel an identifier, a name and a member list. The
  constructors are called with whatever the snapshot holds, so the fields are decoded
  values. The back reference to the server is left out.
\<close>

record user =
  user_name :: json
  user_id :: json
  user_real_name :: json
  user_tz :: json

record channel =
  channel_name :: json
  channel_id :: json
  channel_members :: json

definition User :: "json \<Rightarrow> json \<Rightarrow> json \<Rightarrow> json \<Rightarrow> user" where
  "User name uid real_name tz =
     \<lparr>user_name = name, user_id = uid, user_real_name = real_name, user_tz = tz\<rparr>"

definition Channel :: "json \<Rightarrow> json \<Rightarrow> json \<Rightarrow> channel" where
  "Channel name cid members =
     \<lparr>channel_name = name, channel_id = cid, channel_members = members\<rparr>"

text \<open>
  Modelled from the spec: \<open>SearchList.find\<close> (util.py) is not among the sources. The
  spec's lookup of a channel by identifier or name is an exact match on the identifier
  first, then a match on the name, the first match winning.
\<close>

definition SearchList_find :: "channel list \<Rightarrow> json \<Rightarrow> channel option" where
  "SearchList_find cs key =
     (case List.find (\<lambda>c. channel_id c = key) cs of
        Some c \<Rightarrow> Some c
      | None \<Rightarrow> List.find (\<lambda>c. channel_name c = key) cs)"

text \<open>
  Modelled from the spec: \<open>SearchDict\<close> (util.py) is not among the sources. The spec
  calls it a mapping from user identifier to User, so \<open>update\<close> is the one of Python's
  dict. A key must be hashable (lists and dicts are not), keys are compared with
  \<open>==\<close> (which identifies \<open>True\<close> with 1 and \<open>False\<close> with 0), an existing key keeps
  its place and its key object, a new key goes last.
\<close>

fun hashable :: "json \<Rightarrow> bool" where
  "hashable (JList xs) = False"
| "hashable (JObj d) = False"
| "hashable v = True"

fun key_eq :: "json \<Rightarrow> json \<Rightarrow> bool" where
  "key_eq (JBool b) (JNum n) = (n = (if b then 1 else 0))"
| "key_eq (JNum n) (JBool b) = (n = (if b then 1 else 0))"
| "key_eq a b = (a = b)"

fun dict_update :: "json \<Rightarrow> 'v \<Rightarrow> (json \<times> 'v) list \<Rightarrow> (json \<times> 'v) list" where
  "dict_update k v [] = [(k, v)]"
| "dict_update k v (p # ps) =
     (if key_eq (fst p) k then (fst p, v) # ps else p # dict_update k v ps)"

fun dict_get :: "(json \<times> 'v) list \<Rightarrow> json \<Rightarrow> 'v option" where
  "dict_get [] k = None"
| "dict_get (p # ps) k = (if key_eq (fst p) k then Some (snd p) else dict_get ps k)"

section \<open>Collaborators\<close>

text \<open>
  The websocket of the \<open>websockets\<close> client. \<open>incoming\<close> holds what the successive
  \<open>recv()\<close> calls produce, a frame or an exception; when it is exhausted no frame ever
  arrives and \<open>await recv()\<close> does not complete. \<open>send_result n\<close> is what the
  \<open>n\<close>-th call of \<open>send\<close> does (\<open>None\<close>: it returns); \<open>send_calls\<close> records the
  arguments of the calls that returned.
\<close>

datatype recv_outcome = Frame string | RecvRaises error

text \<open>The text \<open>json.dumps(data)\<close>, kept as the value it encodes.\<close>

datatype wire = Dumps json

definition json_dumps :: "json \<Rightarrow> wire" where
  "json_dumps data = Dumps data"

record wsconn =
  incoming :: "recv_outcome list"
  send_result :: "nat \<Rightarrow> error option"
  send_attempts :: nat
  send_calls :: "wire list"

definition ws_send :: "wsconn \<Rightarrow> wire \<Rightarrow> error option \<times> wsconn" where
  "ws_send ws data =
     (let ws' = ws\<lparr>send_attempts := Suc (send_attempts ws)\<rparr>
      in case send_result ws (send_attempts ws) of
           Some e \<Rightarrow> (Some e, ws')
         | None \<Rightarrow> (None, ws'\<lparr>send_calls := send_calls ws @ [data]\<rparr>))"

text \<open>
  One request of \<open>SlackRequest.do(token, method, timeout=..., post_data=...)\<close> and the
  reply: its \<open>status_code\<close>, and what \<open>reply.json()\<close> returns (\<open>None\<close> when the body is
  not JSON and \<open>json()\<close> raises \<open>ValueError\<close>).
\<close>

record api_call =
  call_token :: string
  call_method :: string
  call_timeout :: json
  call_post_data :: "(string \<times> json) list"

record reply =
  status_code :: int
  reply_json :: "json option"

text \<open>The fields that \<open>_connect_slack_websocket\<close> reads of urllib3's \<open>parse_url\<close>.\<close>

record url_parts =
  url_host :: "string option"
  url_port :: "int option"
  url_auth :: "string option"

text \<open>
  The world outside \<open>server.py\<close>: \<open>api_do\<close> answers a request given the requests made
  before it (or raises), \<open>ws_connect\<close> is \<open>wsclient.connect(url, extra_headers=...)\<close>
  (\<open>Inl m\<close>: it raises an exception whose \<open>str\<close> is \<open>m\<close>), \<open>parse_url\<close> is urllib3's.
\<close>

record env =
  api_do :: "api_call list \<Rightarrow> api_call \<Rightarrow> error + reply"
  ws_connect :: "json \<Rightarrow> json \<Rightarrow> string + wsconn"
  parse_url :: "string \<Rightarrow> error + url_parts"

section \<open>The Server object\<close>

text \<open>
  The attributes set by \<open>Server.__init__\<close>. \<open>api_requester\<close> is the \<open>SlackRequest\<close>
  object, represented by the requests it has made so far.
\<close>

record server =
  token :: string
  username :: json
  domain :: json
  login_data :: json
  websocket :: "wsconn option"
  users :: "(json \<times> user) list"
  channels :: "channel list"
  connected :: bool
  ws_url :: json
  proxies :: "(string \<times> string) list option"
  api_requester :: "api_call list"

subsection \<open>attach_user, attach_channel\<close>

definition attach_user :: "json \<Rightarrow> json \<Rightarrow> json \<Rightarrow> json \<Rightarrow> server \<Rightarrow> error option \<times> server" where
  "attach_user name uid real_name tz s =
     (if hashable uid
      then (None, s\<lparr>users := dict_update uid (User name uid real_name tz) (users s)\<rparr>)
      else (Some TypeError, s))"

definition attach_channel :: "json \<Rightarrow> json \<Rightarrow> json \<Rightarrow> server \<Rightarrow> server" where
  "attach_channel name cid members s =
     (let members = (if members = JNull then JList [] else members)
      in if SearchList_find (channels s) cid = None
         then s\<lparr>channels := channels s @ [Channel name cid members]\<rparr>
         else s)"

subsection \<open>parse_channel_data, parse_user_data\<close>

text \<open>
  The body of the loop of \<open>parse_channel_data\<close> on one element. It returns the
  exception raised (if any), the element as the body leaves it (the defaults are
  written into the dict itself) and the server. An element that is not a dict ends in
  \<open>TypeError\<close> on every path: \<open>in\<close> is not defined on it, or it is a string or a list
  and \<open>channel["id"]\<close>, \<open>channel["name"]\<close> asks it for a string index.
\<close>

definition parse_channel :: "json \<Rightarrow> server \<Rightarrow> error option \<times> json \<times> server" where
  "parse_channel channel s =
     (case channel of
        JObj d \<Rightarrow>
          (case (if \<not> has_key d ''name''
                 then (case getitem (JObj d) ''id'' of
                         Inl e \<Rightarrow> Inl e
                       | Inr i \<Rightarrow> Inr (setitem d ''name'' i))
                 else Inr d) of
             Inl e \<Rightarrow> (Some e, JObj d, s)
           | Inr d1 \<Rightarrow>
               (let d2 = (if \<not> has_key d1 ''members''
                          then setitem d1 ''members'' (JList []) else d1)
                in case getitem (JObj d2) ''name'' of
                     Inl e \<Rightarrow> (Some e, JObj d2, s)
                   | Inr name \<Rightarrow>
                       (case getitem (JObj d2) ''id'' of
                          Inl e \<Rightarrow> (Some e, JObj d2, s)
                        | Inr cid \<Rightarrow>
                            (case getitem (JObj d2) ''members'' of
                               Inl e \<Rightarrow> (Some e, JObj d2, s)
                             | Inr members \<Rightarrow>
                                 (None, JObj d2, attach_channel name cid members s)))))
      | _ \<Rightarrow> (Some TypeError, channel, s))"

text \<open>The same for \<open>parse_user_data\<close>.\<close>

definition parse_user :: "json \<Rightarrow> server \<Rightarrow> error option \<times> json \<times> server" where
  "parse_user usr s =
     (case usr of
        JObj d \<Rightarrow>
          (let d1 = (if \<not> has_key d ''tz'' then setitem d ''tz'' (JStr ''unknown'') else d)
           in case (if \<not> has_key d1 ''real_name''
                    then (case getitem (JObj d1) ''name'' of
                            Inl e \<Rightarrow> Inl e
                          | Inr n \<Rightarrow> Inr (setitem d1 ''real_name'' n))
                    else Inr d1) of
                Inl e \<Rightarrow> (Some e, JObj d1, s)
              | Inr d2 \<Rightarrow>
                  (case getitem (JObj d2) ''name'' of
                     Inl e \<Rightarrow> (Some e, JObj d2, s)
                   | Inr name \<Rightarrow>
                       (case getitem (JObj d2) ''id'' of
                          Inl e \<Rightarrow> (Some e, JObj d2, s)
                        | Inr uid \<Rightarrow>
                            (case getitem (JObj d2) ''real_name'' of
                               Inl e \<Rightarrow> (Some e, JObj d2, s)
                             | Inr real_name \<Rightarrow>
                                 (case getitem (JObj d2) ''tz'' of
                                    Inl e \<Rightarrow> (Some e, JObj d2, s)
                                  | Inr tz \<Rightarrow>
                                      (case attach_user name uid real_name tz s of
                                         (r, s') \<Rightarrow> (r, JObj d2, s')))))))
      | _ \<Rightarrow> (Some TypeError, usr, s))"

text \<open>
  The \<open>for\<close> loop: the body runs on the elements in order and the first exception ends
  it. The elements come back as the loop left them.
\<close>

fun for_each :: "(json \<Rightarrow> server \<Rightarrow> error option \<times> json \<times> server) \<Rightarrow> json list \<Rightarrow> server
    \<Rightarrow> error option \<times> json list \<times> server" where
  "for_each body [] s = (None, [], s)"
| "for_each body (x # xs) s =
     (case body x s of
        (Some e, x', s') \<Rightarrow> (Some e, x' # xs, s')
      | (None, x', s') \<Rightarrow>
          (case for_each body xs s' of (r, xs', s'') \<Rightarrow> (r, x' # xs', s'')))"

text \<open>
  Iterating over the argument: only the dicts inside a list can be changed by the
  body, so only a list is handed back changed.
\<close>

definition parse_data :: "(json \<Rightarrow> server \<Rightarrow> error option \<times> json \<times> server) \<Rightarrow> json \<Rightarrow> server
    \<Rightarrow> error option \<times> json \<times> server" where
  "parse_data body data s =
     (case py_iter data of
        Inl e \<Rightarrow> (Some e, data, s)
      | Inr xs \<Rightarrow>
          (case for_each body xs s of
             (r, xs', s') \<Rightarrow> (r, (case data of JList _ \<Rightarrow> JList xs' | _ \<Rightarrow> data), s')))"

definition parse_channel_data :: "json \<Rightarrow> server \<Rightarrow> error option \<times> json \<times> server" where
  "parse_channel_data channel_data s = parse_data parse_channel channel_data s"

definition parse_user_data :: "json \<Rightarrow> server \<Rightarrow> error option \<times> json \<times> server" where
  "parse_user_data user_data s = parse_data parse_user user_data s"

subsection \<open>connect_slack_websocket\<close>

text \<open>\<open>auth.split(':')\<close>.\<close>

fun split_colon :: "string \<Rightarrow> string list" where
  "split_colon [] = [[]]"
| "split_colon (c # cs) =
     (if c = CHR '':'' then [] # split_colon cs
      else (case split_colon cs of
              w # ws \<Rightarrow> (c # w) # ws
            | [] \<Rightarrow> [[c]]))"

definition opt_str :: "string option \<Rightarrow> json" where
  "opt_str x = (case x of None \<Rightarrow> JNull | Some t \<Rightarrow> JStr t)"

definition opt_int :: "int option \<Rightarrow> json" where
  "opt_int x = (case x of None \<Rightarrow> JNull | Some n \<Rightarrow> JNum n)"

text \<open>
  The first half of \<open>_connect_slack_websocket\<close>: host, port and auth of the http
  proxy, all \<open>None\<close> without one. \<open>auth and auth.split(':')\<close> is \<open>auth\<close> itself when
  that is \<open>None\<close> or empty. \<open>parse_url\<close> is called outside the \<open>try\<close>, so what it raises
  is passed on as it is.
\<close>

definition proxy_settings :: "env \<Rightarrow> (string \<times> string) list option \<Rightarrow> error + (json \<times> json \<times> json)" where
  "proxy_settings ev px =
     (case px of
        None \<Rightarrow> Inr (JNull, JNull, JNull)
      | Some d \<Rightarrow>
          (if d \<noteq> [] \<and> map_of d ''http'' \<noteq> None
           then (case map_of d ''http'' of
                   None \<Rightarrow> Inl (KeyError ''http'')
                 | Some u \<Rightarrow>
                     (case parse_url ev u of
                        Inl e \<Rightarrow> Inl e
                      | Inr parts \<Rightarrow>
                          Inr (opt_str (url_host parts), opt_int (url_port parts),
                               (case url_auth parts of
                                  None \<Rightarrow> JNull
                                | Some a \<Rightarrow> if a = [] then JStr a
                                            else JList (map JStr (split_colon a))))))
           else Inr (JNull, JNull, JNull)))"

definition connect_slack_websocket_coro :: "env \<Rightarrow> json \<Rightarrow> server \<Rightarrow> error option \<times> server" where
  "connect_slack_websocket_coro ev url s =
     (case proxy_settings ev (proxies s) of
        Inl e \<Rightarrow> (Some e, s)
      | Inr (proxy_host, proxy_port, proxy_auth) \<Rightarrow>
          (case ws_connect ev url
                  (JObj [(''http_proxy_host'', proxy_host),
                         (''http_proxy_port'', proxy_port),
                         (''http_proxy_auth'', proxy_auth)]) of
             Inl m \<Rightarrow> (Some (SlackConnectionError (Some m)), s)
           | Inr ws \<Rightarrow> (None, s\<lparr>websocket := Some ws\<rparr>)))"

text \<open>\<open>run_until_complete\<close> runs the coroutine to its end and passes on what it raises.\<close>

definition connect_slack_websocket :: "env \<Rightarrow> json \<Rightarrow> server \<Rightarrow> error option \<times> server" where
  "connect_slack_websocket ev url s = connect_slack_websocket_coro ev url s"

subsection \<open>parse_slack_login_data\<close>

text \<open>
  \<open>self.login_data\<close> is the very object the parsers walk through, so the defaults they
  write into the records of \<open>login_data[key]\<close> show in \<open>self.login_data\<close>.
\<close>

definition parse_section :: "(json \<Rightarrow> server \<Rightarrow> error option \<times> json \<times> server) \<Rightarrow> string \<Rightarrow> server
    \<Rightarrow> error option \<times> server" where
  "parse_section parser key s =
     (case getitem (login_data s) key of
        Inl e \<Rightarrow> (Some e, s)
      | Inr data \<Rightarrow>
          (case parser data s of
             (r, data', s') \<Rightarrow>
               (r, s'\<lparr>login_data :=
                       (case login_data s' of
                          JObj d \<Rightarrow> JObj (setitem d key data')
                        | other \<Rightarrow> other)\<rparr>)))"

definition getitem2 :: "json \<Rightarrow> string \<Rightarrow> string \<Rightarrow> error + json" where
  "getitem2 v k1 k2 = (case getitem v k1 of Inl e \<Rightarrow> Inl e | Inr w \<Rightarrow> getitem w k2)"

definition parse_slack_login_data :: "json \<Rightarrow> bool \<Rightarrow> server \<Rightarrow> error option \<times> server" where
  "parse_slack_login_data ld use_rtm_start s =
     (let s0 = s\<lparr>login_data := ld\<rparr>
      in case getitem2 (login_data s0) ''team'' ''domain'' of
           Inl e \<Rightarrow> (Some e, s0)
         | Inr dm \<Rightarrow>
             (let s1 = s0\<lparr>domain := dm\<rparr>
              in case getitem2 (login_data s1) ''self'' ''name'' of
                   Inl e \<Rightarrow> (Some e, s1)
                 | Inr nm \<Rightarrow>
                     (let s2 = s1\<lparr>username := nm\<rparr>
                      in if use_rtm_start
                         then (case parse_section parse_channel_data ''channels'' s2 of
                                 (Some e, s3) \<Rightarrow> (Some e, s3)
                               | (None, s3) \<Rightarrow>
                           (case parse_section parse_channel_data ''groups'' s3 of
                                 (Some e, s4) \<Rightarrow> (Some e, s4)
                               | (None, s4) \<Rightarrow>
                           (case parse_section parse_user_data ''users'' s4 of
                                 (Some e, s5) \<Rightarrow> (Some e, s5)
                               | (None, s5) \<Rightarrow>
                            parse_section parse_channel_data ''ims'' s5)))
                         else (None, s2))))"

subsection \<open>rtm_connect\<close>

definition connect_call :: "server \<Rightarrow> json \<Rightarrow> bool \<Rightarrow> (string \<times> json) list \<Rightarrow> api_call" where
  "connect_call s timeout use_rtm_start kwargs =
     \<lparr>call_token = token s,
      call_method = (if use_rtm_start then ''rtm.start'' else ''rtm.connect''),
      call_timeout = timeout,
      call_post_data = kwargs\<rparr>"

definition rtm_connect :: "env \<Rightarrow> bool \<Rightarrow> json \<Rightarrow> bool \<Rightarrow> (string \<times> json) list \<Rightarrow> server
    \<Rightarrow> error option \<times> server" where
  "rtm_connect ev reconnect timeout use_rtm_start kwargs s =
     (let call = connect_call s timeout use_rtm_start kwargs;
          s1 = s\<lparr>api_requester := api_requester s @ [call]\<rparr>
      in case api_do ev (api_requester s) call of
           Inl e \<Rightarrow> (Some e, s1)
         | Inr rep \<Rightarrow>
             if status_code rep \<noteq> 200 then (Some (SlackConnectionError None), s1)
             else
               (case reply_json rep of
                  None \<Rightarrow> (Some ValueError, s1)
                | Some ld \<Rightarrow>
                    (case getitem ld ''ok'' of
                       Inl e \<Rightarrow> (Some e, s1)
                     | Inr ok \<Rightarrow>
                         if truthy ok
                         then (case getitem ld ''url'' of
                                 Inl e \<Rightarrow> (Some e, s1)
                               | Inr url \<Rightarrow>
                                   (let s2 = s1\<lparr>ws_url := url\<rparr>
                                    in case connect_slack_websocket ev (ws_url s2) s2 of
                                         (Some e, s3) \<Rightarrow> (Some e, s3)
                                       | (None, s3) \<Rightarrow>
                                           if \<not> reconnect
                                           then parse_slack_login_data ld use_rtm_start s3
                                           else (None, s3)))
                         else (Some SlackLoginError, s1))))"

text \<open>\<open>Server.__init__\<close>.\<close>

definition Server_init :: "env \<Rightarrow> string \<Rightarrow> bool \<Rightarrow> (string \<times> string) list option \<Rightarrow> error option \<times> server" where
  "Server_init ev tok connect px =
     (let s = \<lparr>token = tok, username = JNull, domain = JNull, login_data = JNull,
               websocket = None, users = [], channels = [], connected = False,
               ws_url = JNull, proxies = px, api_requester = []\<rparr>
      in if connect then rtm_connect ev False JNull True [] s else (None, s))"

subsection \<open>send_to_websocket, rtm_send_message, ping\<close>

text \<open>
  The body of the \<open>try\<close> of \<open>send_to_websocket\<close>: \<open>json.dumps\<close>, then
  \<open>self.websocket.send\<close>, which is an \<open>AttributeError\<close> while \<open>self.websocket\<close> is
  \<open>None\<close>.
\<close>

definition try_send :: "json \<Rightarrow> server \<Rightarrow> error option \<times> server" where
  "try_send data s =
     (let data' = json_dumps data
      in case websocket s of
           None \<Rightarrow> (Some AttributeError, s)
         | Some ws \<Rightarrow>
             (case ws_send ws data' of (r, ws') \<Rightarrow> (r, s\<lparr>websocket := Some ws'\<rparr>)))"

definition send_to_websocket :: "env \<Rightarrow> json \<Rightarrow> server \<Rightarrow> error option \<times> server" where
  "send_to_websocket ev data s =
     (case try_send data s of
        (None, s') \<Rightarrow> (None, s')
      | (Some e, s') \<Rightarrow> rtm_connect ev True JNull True [] s')"

text \<open>The dict that \<open>rtm_send_message\<close> builds before it sends it.\<close>

definition message_json :: "json \<Rightarrow> json \<Rightarrow> json \<Rightarrow> json \<Rightarrow> (string \<times> json) list" where
  "message_json chan message thread reply_broadcast =
     (let m = [(''type'', JStr ''message''), (''channel'', chan), (''text'', message)]
      in if thread \<noteq> JNull
         then (let m1 = setitem m ''thread_ts'' thread
               in if truthy reply_broadcast
                  then setitem m1 ''reply_broadcast'' (JBool True)
                  else m1)
         else m)"

definition rtm_send_message :: "env \<Rightarrow> json \<Rightarrow> json \<Rightarrow> json \<Rightarrow> json \<Rightarrow> server \<Rightarrow> error option \<times> server" where
  "rtm_send_message ev chan message thread reply_broadcast s =
     send_to_websocket ev (JObj (message_json chan message thread reply_broadcast)) s"

definition ping :: "env \<Rightarrow> server \<Rightarrow> error option \<times> server" where
  "ping ev s = send_to_websocket ev (JObj [(''type'', JStr ''ping'')]) s"

subsection \<open>websocket_safe_read\<close>

text \<open>
  \<open>asyncio.Future\<close>: \<open>None\<close> until a result is set. Setting a result twice and reading
  one that is not set both raise \<open>InvalidStateError\<close>.
\<close>

type_synonym future = "string option"

definition set_result :: "future \<Rightarrow> string \<Rightarrow> error + future" where
  "set_result f v = (case f of None \<Rightarrow> Inr (Some v) | Some _ \<Rightarrow> Inl InvalidStateError)"

definition future_result :: "future \<Rightarrow> error + string" where
  "future_result f = (case f of None \<Rightarrow> Inl InvalidStateError | Some v \<Rightarrow> Inr v)"

text \<open>
  \<open>str.rstrip()\<close>: the characters below 256 that Python counts as whitespace are
  9 to 13, 28 to 32, 133 and 160.
\<close>

definition is_space :: "char \<Rightarrow> bool" where
  "is_space c = (of_char c \<in> {9, 10, 11, 12, 13, 28, 29, 30, 31, 32, 133, 160 :: nat})"

definition rstrip :: "string \<Rightarrow> string" where
  "rstrip t = rev (dropWhile is_space (rev t))"

text \<open>
  The \<open>while True\<close> loop of the non-blocking branch of \<open>_websocket_safe_read\<close>, on what
  \<open>recv()\<close> is going to produce. The result is \<open>None\<close> when the loop never ends
  (\<open>recv()\<close> waits for a frame that does not come); otherwise it is what the coroutine
  returns or raises, the future and what is left to receive.
\<close>

fun read_loop :: "string \<Rightarrow> future \<Rightarrow> recv_outcome list
    \<Rightarrow> ((error + json) \<times> future \<times> recv_outcome list) option" where
  "read_loop data readop [] = None"
| "read_loop data readop (Frame f # rest) =
     (let data' = data @ f @ [CHR 0x0A]
      in case set_result readop (rstrip data') of
           Inl e \<Rightarrow> Some (Inl e, readop, rest)
         | Inr readop' \<Rightarrow> read_loop data' readop' rest)"
| "read_loop data readop (RecvRaises e # rest) =
     (case e of
        SSLError n \<Rightarrow>
          if n = Some 2 then Some (Inr (JStr []), readop, rest)
          else Some (Inl e, readop, rest)
      | _ \<Rightarrow> Some (Inl e, readop, rest))"

definition websocket_safe_read_coro :: "future \<Rightarrow> bool \<Rightarrow> server
    \<Rightarrow> ((error + json) \<times> future \<times> server) option" where
  "websocket_safe_read_coro readop blocking s =
     (case websocket s of
        None \<Rightarrow> Some (Inl AttributeError, readop, s)
      | Some ws \<Rightarrow>
          if \<not> blocking
          then (case read_loop [] readop (incoming ws) of
                  None \<Rightarrow> None
                | Some (r, readop', rest) \<Rightarrow>
                    Some (r, readop', s\<lparr>websocket := Some (ws\<lparr>incoming := rest\<rparr>)\<rparr>))
          else (case incoming ws of
                  [] \<Rightarrow> None
                | Frame rawdata # rest \<Rightarrow>
                    (let s' = s\<lparr>websocket := Some (ws\<lparr>incoming := rest\<rparr>)\<rparr>
                     in case set_result readop (rstrip ([] @ rawdata @ [CHR 0x0A])) of
                          Inl e \<Rightarrow> Some (Inl e, readop, s')
                        | Inr readop' \<Rightarrow> Some (Inr JNull, readop', s'))
                | RecvRaises e # rest \<Rightarrow>
                    Some (Inl e, readop, s\<lparr>websocket := Some (ws\<lparr>incoming := rest\<rparr>)\<rparr>)))"

definition websocket_safe_read :: "bool \<Rightarrow> server \<Rightarrow> ((error + string) \<times> server) option" where
  "websocket_safe_read blocking s =
     (let readop = None
      in case websocket_safe_read_coro readop blocking s of
           None \<Rightarrow> None
         | Some (Inl e, readop', s') \<Rightarrow> Some (Inl e, s')
         | Some (Inr v, readop', s') \<Rightarrow> Some (future_result readop', s'))"

section \<open>Vocabulary of the properties\<close>

text \<open>
  Keys of a dict are the same key exactly when they have the same normal form.
\<close>

definition key_norm :: "json \<Rightarrow> json" where
  "key_norm k = (case k of JBool b \<Rightarrow> JNum (if b then 1 else 0) | _ \<Rightarrow> k)"

text \<open>
  The fields every record of the snapshot has: a channel record its \<open>id\<close>, a user
  record its \<open>id\<close> (a value that can be a dict key) and its \<open>name\<close>. The others,
  \<open>name\<close> and \<open>members\<close> of a channel, \<open>tz\<close> and \<open>real_name\<close> of a user, are optional.
\<close>

definition channel_record :: "json \<Rightarrow> bool" where
  "channel_record x = (case x of JObj d \<Rightarrow> has_key d ''id'' | _ \<Rightarrow> False)"

definition user_record :: "json \<Rightarrow> bool" where
  "user_record x =
     (case x of
        JObj d \<Rightarrow> has_key d ''name'' \<and> (case map_of d ''id'' of Some i \<Rightarrow> hashable i | None \<Rightarrow> False)
      | _ \<Rightarrow> False)"

text \<open>
  What the spec says parsing does with one record (its sections 3 and 4.1), written
  down from its words to compare the parsers with. A channel record with its defaults:
  a missing \<open>name\<close> is the id, missing \<open>members\<close> are the empty list. A user record
  with its defaults: a missing \<open>tz\<close> is \<open>unknown\<close>, a missing \<open>real_name\<close> is the name.
\<close>

definition spec_channel_defaults :: "(string \<times> json) list \<Rightarrow> json \<Rightarrow> (string \<times> json) list" where
  "spec_channel_defaults d cid =
     (let d1 = (if has_key d ''name'' then d else setitem d ''name'' cid)
      in if has_key d1 ''members'' then d1 else setitem d1 ''members'' (JList []))"

definition spec_user_defaults :: "(string \<times> json) list \<Rightarrow> json \<Rightarrow> (string \<times> json) list" where
  "spec_user_defaults d nm =
     (let d1 = (if has_key d ''tz'' then d else setitem d ''tz'' (JStr ''unknown''))
      in if has_key d1 ''real_name'' then d1 else setitem d1 ''real_name'' nm)"

definition spec_fill_channel :: "json \<Rightarrow> json" where
  "spec_fill_channel x =
     (case x of
        JObj d \<Rightarrow> (case map_of d ''id'' of
                     Some cid \<Rightarrow> JObj (spec_channel_defaults d cid)
                   | None \<Rightarrow> x)
      | _ \<Rightarrow> x)"

definition spec_fill_user :: "json \<Rightarrow> json" where
  "spec_fill_user x =
     (case x of
        JObj d \<Rightarrow> (case map_of d ''name'' of
                     Some nm \<Rightarrow> JObj (spec_user_defaults d nm)
                   | None \<Rightarrow> x)
      | _ \<Rightarrow> x)"

text \<open>
  The Channel and the User that the spec describes for a record. \<open>attachChannel\<close>
  takes absent members (\<open>None\<close>) for the empty list.
\<close>

definition spec_channel_of_record :: "(string \<times> json) list \<Rightarrow> json \<Rightarrow> channel" where
  "spec_channel_of_record d cid =
     \<lparr>channel_name = (case map_of d ''name'' of None \<Rightarrow> cid | Some n \<Rightarrow> n),
      channel_id = cid,
      channel_members = (case map_of d ''members'' of
                           None \<Rightarrow> JList []
                         | Some m \<Rightarrow> if m = JNull then JList [] else m)\<rparr>"

definition spec_user_of_record :: "(string \<times> json) list \<Rightarrow> json \<Rightarrow> json \<Rightarrow> user" where
  "spec_user_of_record d uid nm =
     \<lparr>user_name = nm, user_id = uid,
      user_real_name = (case map_of d ''real_name'' of None \<Rightarrow> nm | Some r \<Rightarrow> r),
      user_tz = (case map_of d ''tz'' of None \<Rightarrow> JStr ''unknown'' | Some t \<Rightarrow> t)\<rparr>"

text \<open>
  Attaching a record: a channel is inserted if the lookup of its id finds nothing, a
  user replaces the entry under its id.
\<close>

definition spec_attach_channel :: "json \<Rightarrow> server \<Rightarrow> server" where
  "spec_attach_channel x s =
     (case x of
        JObj d \<Rightarrow>
          (case map_of d ''id'' of
             Some cid \<Rightarrow>
               if SearchList_find (channels s) cid = None
               then s\<lparr>channels := channels s @ [spec_channel_of_record d cid]\<rparr>
               else s
           | None \<Rightarrow> s)
      | _ \<Rightarrow> s)"

definition spec_attach_user :: "json \<Rightarrow> server \<Rightarrow> server" where
  "spec_attach_user x s =
     (case x of
        JObj d \<Rightarrow>
          (case map_of d ''id'' of
             Some uid \<Rightarrow>
               (case map_of d ''name'' of
                  Some nm \<Rightarrow> s\<lparr>users := dict_update uid (spec_user_of_record d uid nm) (users s)\<rparr>
                | None \<Rightarrow> s)
           | None \<Rightarrow> s)
      | _ \<Rightarrow> s)"

section \<open>Concrete sessions\<close>

text \<open>
  A websocket on which nothing arrives and every \<open>send\<close> returns; one on which
  \<open>recv()\<close> reports that no data is there yet (\<open>SSLError\<close> with \<open>errno\<close> 2); one on
  which every \<open>send\<close> raises.
\<close>

definition fresh_ws :: wsconn where
  "fresh_ws = \<lparr>incoming = [], send_result = (\<lambda>n. None), send_attempts = 0, send_calls = []\<rparr>"

definition idle_ws :: wsconn where
  "idle_ws = fresh_ws\<lparr>incoming := [RecvRaises (SSLError (Some 2))]\<rparr>"

definition broken_ws :: wsconn where
  "broken_ws = fresh_ws\<lparr>send_result := (\<lambda>n. Some (ExternalError ''connection closed''))\<rparr>"

text \<open>
  A world in which every request gets the same reply and every attempt to open the
  stream has the same outcome; there is no proxy to parse.
\<close>

definition scripted_env :: "reply \<Rightarrow> string + wsconn \<Rightarrow> env" where
  "scripted_env rep opened =
     \<lparr>api_do = (\<lambda>made call. Inr rep),
      ws_connect = (\<lambda>url headers. opened),
      parse_url = (\<lambda>u. Inl (ExternalError ''no proxy''))\<rparr>"

text \<open>
  Two answers of \<open>rtm.start\<close> with \<open>ok: true\<close>, and one with \<open>ok: false\<close>.
\<close>

definition snapshot :: json where
  "snapshot = JObj
     [(''ok'', JBool True),
      (''url'', JStr ''wss://example.test/ws''),
      (''team'', JObj [(''domain'', JStr ''acme'')]),
      (''self'', JObj [(''name'', JStr ''bot'')]),
      (''channels'', JList [JObj [(''id'', JStr ''C1'')]]),
      (''groups'', JList []),
      (''users'', JList [JObj [(''id'', JStr ''U1''), (''name'', JStr ''alice'')]]),
      (''ims'', JList [])]"

definition other_snapshot :: json where
  "other_snapshot = JObj
     [(''ok'', JBool True),
      (''url'', JStr ''wss://example.test/ws2''),
      (''team'', JObj [(''domain'', JStr ''acme'')]),
      (''self'', JObj [(''name'', JStr ''bot'')]),
      (''channels'', JList [JObj [(''id'', JStr ''C1''), (''name'', JStr ''renamed'')],
                            JObj [(''id'', JStr ''C2''), (''name'', JStr ''random'')]]),
      (''groups'', JList []),
      (''users'', JList [JObj [(''id'', JStr ''U1''), (''name'', JStr ''bob'')]]),
      (''ims'', JList [])]"

definition ok_reply :: reply where
  "ok_reply = \<lparr>status_code = 200, reply_json = Some snapshot\<rparr>"

definition refused_reply :: reply where
  "refused_reply =
     \<lparr>status_code = 200,
      reply_json = Some (JObj [(''ok'', JBool False), (''error'', JStr ''invalid_auth'')])\<rparr>"

definition ok_env :: env where
  "ok_env = scripted_env ok_reply (Inr fresh_ws)"

definition other_env :: env where
  "other_env = scripted_env \<lparr>status_code = 200, reply_json = Some other_snapshot\<rparr> (Inr fresh_ws)"

definition refused_env :: env where
  "refused_env = scripted_env refused_reply (Inr fresh_ws)"

definition closed_env :: env where
  "closed_env = scripted_env ok_reply (Inl ''connection refused'')"

text \<open>
  A server built with \<open>connect=False\<close>, and the same server after a first
  \<open>rtm_connect()\<close> that went through.
\<close>

definition fresh_server :: server where
  "fresh_server = snd (Server_init (scripted_env ok_reply (Inr fresh_ws)) ''xoxb-1'' False None)"

definition populated_server :: server where
  "populated_server = snd (rtm_connect ok_env False JNull True [] fresh_server)"

text \<open>Two channel records and two user records, the first of each without its optional fields.\<close>

definition two_channel_records :: "json list" where
  "two_channel_records =
     [JObj [(''id'', JStr ''C1'')],
      JObj [(''id'', JStr ''C2''), (''name'', JStr ''random''),
            (''members'', JList [JStr ''U1''])]]"

definition two_user_records :: "json list" where
  "two_user_records =
     [JObj [(''id'', JStr ''U1''), (''name'', JStr ''alice'')],
      JObj [(''id'', JStr ''U2''), (''name'', JStr ''bob''), (''real_name'', JStr ''Bob B''),
            (''tz'', JStr ''CET'')]]"

section \<open>Auxiliary facts\<close>

subsection \<open>Records of the snapshot\<close>

lemma map_of_setitem: "map_of (setitem d k v) k' = (if k' = k then Some v else map_of d k')"
  by (simp add: setitem_def update_conv)

lemma parse_channel_with_id:
  assumes "map_of d ''id'' = Some cid"
  shows "parse_channel (JObj d) s =
     (None,
      JObj (let d1 = (if has_key d ''name'' then d else setitem d ''name'' cid)
            in if has_key d1 ''members'' then d1 else setitem d1 ''members'' (JList [])),
      attach_channel (case map_of d ''name'' of None \<Rightarrow> cid | Some n \<Rightarrow> n) cid
                     (case map_of d ''members'' of None \<Rightarrow> JList [] | Some m \<Rightarrow> m) s)"
  using assms
  by (cases "map_of d ''name''"; cases "map_of d ''members''")
     (simp_all add: parse_channel_def has_key_def map_of_setitem Let_def)

lemma parse_channel_without_id:
  assumes "map_of d ''id'' = None"
  shows "snd (snd (parse_channel (JObj d) s)) = s"
  using assms
  by (cases "map_of d ''name''"; cases "map_of d ''members''")
     (simp_all add: parse_channel_def has_key_def map_of_setitem Let_def)

lemma parse_channel_server:
  "snd (snd (parse_channel x s)) = s
   \<or> (\<exists>n c m. snd (snd (parse_channel x s)) = attach_channel n c m s)"
proof (cases x)
  case (JObj d)
  show ?thesis
  proof (cases "map_of d ''id''")
    case None
    then show ?thesis using JObj parse_channel_without_id by simp
  next
    case (Some cid)
    show ?thesis unfolding JObj parse_channel_with_id [OF Some] by auto
  qed
qed (simp_all add: parse_channel_def)

lemma parse_user_complete:
  assumes "map_of d ''id'' = Some uid" and "map_of d ''name'' = Some nm"
  shows "parse_user (JObj d) s =
     (fst (attach_user nm uid (case map_of d ''real_name'' of None \<Rightarrow> nm | Some r \<Rightarrow> r)
                       (case map_of d ''tz'' of None \<Rightarrow> JStr ''unknown'' | Some t \<Rightarrow> t) s),
      JObj (let d1 = (if has_key d ''tz'' then d else setitem d ''tz'' (JStr ''unknown''))
            in if has_key d1 ''real_name'' then d1 else setitem d1 ''real_name'' nm),
      snd (attach_user nm uid (case map_of d ''real_name'' of None \<Rightarrow> nm | Some r \<Rightarrow> r)
                       (case map_of d ''tz'' of None \<Rightarrow> JStr ''unknown'' | Some t \<Rightarrow> t) s))"
  using assms
  by (cases "map_of d ''real_name''"; cases "map_of d ''tz''")
     (simp_all add: parse_user_def has_key_def map_of_setitem Let_def split_beta)

lemma parse_user_incomplete:
  assumes "map_of d ''id'' = None \<or> map_of d ''name'' = None"
  shows "snd (snd (parse_user (JObj d) s)) = s"
  using assms
  by (cases "map_of d ''real_name''"; cases "map_of d ''tz''"; cases "map_of d ''name''";
      cases "map_of d ''id''")
     (simp_all add: parse_user_def has_key_def map_of_setitem Let_def)

lemma parse_user_server:
  "snd (snd (parse_user x s)) = s
   \<or> (\<exists>n u r t. snd (snd (parse_user x s)) = snd (attach_user n u r t s))"
proof (cases x)
  case (JObj d)
  show ?thesis
  proof (cases "map_of d ''id'' = None \<or> map_of d ''name'' = None")
    case True
    then show ?thesis using JObj parse_user_incomplete by simp
  next
    case False
    then obtain uid nm where "map_of d ''id'' = Some uid" "map_of d ''name'' = Some nm" by auto
    then show ?thesis unfolding JObj using parse_user_complete [of d uid nm s] by auto
  qed
qed (simp_all add: parse_user_def)

subsection \<open>What the parsers leave alone\<close>

lemma attach_channel_frame:
  assumes "\<And>s cs. f (s\<lparr>channels := cs\<rparr>) = f s"
  shows "f (attach_channel n c m s) = f s"
  using assms by (simp add: attach_channel_def Let_def)

lemma attach_user_frame:
  assumes "\<And>s us. f (s\<lparr>users := us\<rparr>) = f s"
  shows "f (snd (attach_user n u r t s)) = f s"
  using assms by (simp add: attach_user_def)

lemma parse_channel_frame:
  assumes "\<And>s cs. f (s\<lparr>channels := cs\<rparr>) = f s"
  shows "f (snd (snd (parse_channel x s))) = f s"
proof -
  from parse_channel_server [of x s] show ?thesis
  proof (elim disjE exE)
    assume "snd (snd (parse_channel x s)) = s"
    then show ?thesis by simp
  next
    fix n c m
    assume "snd (snd (parse_channel x s)) = attach_channel n c m s"
    then show ?thesis using attach_channel_frame [of f n c m s, OF assms] by simp
  qed
qed

lemma parse_user_frame:
  assumes "\<And>s us. f (s\<lparr>users := us\<rparr>) = f s"
  shows "f (snd (snd (parse_user x s))) = f s"
proof -
  from parse_user_server [of x s] show ?thesis
  proof (elim disjE exE)
    assume "snd (snd (parse_user x s)) = s"
    then show ?thesis by simp
  next
    fix n u r t
    assume "snd (snd (parse_user x s)) = snd (attach_user n u r t s)"
    then show ?thesis using attach_user_frame [of f n u r t s, OF assms] by simp
  qed
qed

lemma for_each_frame:
  assumes "\<And>x s. f (snd (snd (body x s))) = f s"
  shows "f (snd (snd (for_each body xs s))) = f s"
proof (induction xs arbitrary: s)
  case Nil
  show ?case by simp
next
  case (Cons x xs)
  obtain r x' s' where b: "body x s = (r, x', s')" by (cases "body x s")
  have s': "f s' = f s" using assms [of x s] b by simp
  show ?case
  proof (cases r)
    case None
    obtain r2 xs' s'' where l: "for_each body xs s' = (r2, xs', s'')"
      by (cases "for_each body xs s'")
    have "f s'' = f s'" using Cons.IH [of s'] l by simp
    with s' show ?thesis using b None l by simp
  next
    case (Some e)
    with s' b show ?thesis by simp
  qed
qed

lemma parse_data_frame:
  assumes "\<And>x s. f (snd (snd (body x s))) = f s"
  shows "f (snd (snd (parse_data body data s))) = f s"
proof (cases "py_iter data")
  case (Inl e)
  then show ?thesis by (simp add: parse_data_def)
next
  case (Inr xs)
  obtain r xs' s' where l: "for_each body xs s = (r, xs', s')" by (cases "for_each body xs s")
  have "f s' = f s" using for_each_frame [of f body xs s, OF assms] l by simp
  then show ?thesis using Inr l by (simp add: parse_data_def)
qed

lemma parse_section_login_data_only:
  assumes "\<And>d s. f (snd (snd (parser d s))) = f s"
      and "\<And>s v. f (s\<lparr>login_data := v\<rparr>) = f s"
  shows "f (snd (parse_section parser key s)) = f s"
proof (cases "getitem (login_data s) key")
  case (Inl e)
  then show ?thesis by (simp add: parse_section_def)
next
  case (Inr d)
  obtain r d' s' where p: "parser d s = (r, d', s')" by (cases "parser d s")
  have "f s' = f s" using assms(1) [of d s] p by simp
  then show ?thesis using Inr p assms(2) by (simp add: parse_section_def)
qed

lemma parse_channels_section_frame:
  assumes "\<And>s cs. f (s\<lparr>channels := cs\<rparr>) = f s"
      and "\<And>s v. f (s\<lparr>login_data := v\<rparr>) = f s"
  shows "f (snd (parse_section parse_channel_data key s)) = f s"
proof (rule parse_section_login_data_only)
  fix d s
  show "f (snd (snd (parse_channel_data d s))) = f s"
    unfolding parse_channel_data_def
    by (rule parse_data_frame) (rule parse_channel_frame [OF assms(1)])
qed (rule assms(2))

lemma parse_users_section_frame:
  assumes "\<And>s us. f (s\<lparr>users := us\<rparr>) = f s"
      and "\<And>s v. f (s\<lparr>login_data := v\<rparr>) = f s"
  shows "f (snd (parse_section parse_user_data key s)) = f s"
proof (rule parse_section_login_data_only)
  fix d s
  show "f (snd (snd (parse_user_data d s))) = f s"
    unfolding parse_user_data_def
    by (rule parse_data_frame) (rule parse_user_frame [OF assms(1)])
qed (rule assms(2))

text \<open>
  \<open>parse_slack_login_data\<close> writes \<open>login_data\<close>, \<open>domain\<close>, \<open>username\<close>, \<open>users\<close> and
  \<open>channels\<close> and nothing else.
\<close>

lemma parse_slack_login_data_frame:
  assumes ch: "\<And>s cs. f (s\<lparr>channels := cs\<rparr>) = f s"
      and us: "\<And>s us. f (s\<lparr>users := us\<rparr>) = f s"
      and ld: "\<And>s v. f (s\<lparr>login_data := v\<rparr>) = f s"
      and dm: "\<And>s v. f (s\<lparr>domain := v\<rparr>) = f s"
      and un: "\<And>s v. f (s\<lparr>username := v\<rparr>) = f s"
  shows "f (snd (parse_slack_login_data data use_rtm_start s)) = f s"
proof -
  let ?s0 = "s\<lparr>login_data := data\<rparr>"
  have f0: "f ?s0 = f s" by (rule ld)
  show ?thesis
  proof (cases "getitem2 data ''team'' ''domain''")
    case (Inl e)
    then show ?thesis using f0 by (simp add: parse_slack_login_data_def)
  next
    case dmv: (Inr dv)
    let ?s1 = "?s0\<lparr>domain := dv\<rparr>"
    have f1: "f ?s1 = f s" using dm [where s = ?s0 and v = dv] f0 by simp
    show ?thesis
    proof (cases "getitem2 data ''self'' ''name''")
      case (Inl e)
      then show ?thesis using f1 dmv by (simp add: parse_slack_login_data_def)
    next
      case nmv: (Inr nv)
      let ?s2 = "?s1\<lparr>username := nv\<rparr>"
      have f2: "f ?s2 = f s" using un [where s = ?s1 and v = nv] f1 by simp
      show ?thesis
      proof (cases use_rtm_start)
        case False
        then show ?thesis using f2 dmv nmv by (simp add: parse_slack_login_data_def)
      next
        case True
        obtain r3 s3 where p3: "parse_section parse_channel_data ''channels'' ?s2 = (r3, s3)"
          by (cases "parse_section parse_channel_data ''channels'' ?s2")
        have f3: "f s3 = f s"
          using parse_channels_section_frame [where f = f and key = "''channels''" and s = ?s2, OF ch ld] p3 f2 by simp
        obtain r4 s4 where p4: "parse_section parse_channel_data ''groups'' s3 = (r4, s4)"
          by (cases "parse_section parse_channel_data ''groups'' s3")
        have f4: "f s4 = f s"
          using parse_channels_section_frame [where f = f and key = "''groups''" and s = s3, OF ch ld] p4 f3 by simp
        obtain r5 s5 where p5: "parse_section parse_user_data ''users'' s4 = (r5, s5)"
          by (cases "parse_section parse_user_data ''users'' s4")
        have f5: "f s5 = f s"
          using parse_users_section_frame [where f = f and key = "''users''" and s = s4, OF us ld] p5 f4 by simp
        have f6: "f (snd (parse_section parse_channel_data ''ims'' s5)) = f s"
          using parse_channels_section_frame [where f = f and key = "''ims''" and s = s5, OF ch ld] f5 by simp
        have "parse_slack_login_data data use_rtm_start s =
               (case r3 of Some e \<Rightarrow> (Some e, s3) | None \<Rightarrow>
                 (case r4 of Some e \<Rightarrow> (Some e, s4) | None \<Rightarrow>
                   (case r5 of Some e \<Rightarrow> (Some e, s5) | None \<Rightarrow>
                      parse_section parse_channel_data ''ims'' s5)))"
          using True dmv nmv p3 p4 p5
          by (simp add: parse_slack_login_data_def split: option.split)
        then show ?thesis using f3 f4 f5 f6 by (simp split: option.split)
      qed
    qed
  qed
qed

subsection \<open>Parsing goes through\<close>

lemma for_each_no_error:
  assumes "\<And>x s. x \<in> set xs \<Longrightarrow> fst (body x s) = None"
  shows "fst (for_each body xs s) = None"
  using assms
proof (induction xs arbitrary: s)
  case Nil
  show ?case by simp
next
  case (Cons x xs)
  obtain r x' s' where b: "body x s = (r, x', s')" by (cases "body x s")
  have r: "r = None" using Cons.prems [of x s] b by simp
  have "fst (for_each body xs s') = None" using Cons.IH Cons.prems by simp
  then show ?case using b r by (auto split: prod.split)
qed

lemma parse_channel_no_error: "channel_record x \<Longrightarrow> fst (parse_channel x s) = None"
  by (cases x) (auto simp: channel_record_def has_key_def parse_channel_with_id)

lemma parse_user_no_error: "user_record x \<Longrightarrow> fst (parse_user x s) = None"
  by (cases x)
     (auto simp: user_record_def has_key_def parse_user_complete attach_user_def
           split: option.splits)

lemma parse_channel_data_no_error:
  "list_all channel_record cs \<Longrightarrow> fst (parse_channel_data (JList cs) s) = None"
  using for_each_no_error [of cs parse_channel s]
  by (auto simp: parse_channel_data_def parse_data_def parse_channel_no_error list_all_iff
      split: prod.split)

lemma parse_user_data_no_error:
  "list_all user_record us \<Longrightarrow> fst (parse_user_data (JList us) s) = None"
  using for_each_no_error [of us parse_user s]
  by (auto simp: parse_user_data_def parse_data_def parse_user_no_error list_all_iff
      split: prod.split)

subsection \<open>The parsers do to every record what the spec says\<close>

lemma parse_channel_record:
  assumes "channel_record x"
  shows "parse_channel x s = (None, spec_fill_channel x, spec_attach_channel x s)"
proof -
  from assms obtain d cid where x: "x = JObj d" and i: "map_of d ''id'' = Some cid"
    by (cases x) (auto simp: channel_record_def has_key_def)
  show ?thesis
    unfolding x parse_channel_with_id [OF i]
    by (simp add: i spec_fill_channel_def spec_attach_channel_def spec_channel_defaults_def
        spec_channel_of_record_def attach_channel_def Channel_def Let_def split: option.split)
qed

lemma parse_user_record:
  assumes "user_record x"
  shows "parse_user x s = (None, spec_fill_user x, spec_attach_user x s)"
proof -
  from assms obtain d uid nm where x: "x = JObj d" and i: "map_of d ''id'' = Some uid"
      and h: "hashable uid" and n: "map_of d ''name'' = Some nm"
    by (cases x) (auto simp: user_record_def has_key_def split: option.splits)
  show ?thesis
    unfolding x parse_user_complete [OF i n]
    using h
    by (simp add: i n spec_fill_user_def spec_attach_user_def spec_user_defaults_def
        spec_user_of_record_def attach_user_def User_def Let_def)
qed

lemma for_each_records:
  assumes "\<And>x s. x \<in> set xs \<Longrightarrow> body x s = (None, fill x, step x s)"
  shows "for_each body xs s = (None, map fill xs, fold step xs s)"
  using assms
proof (induction xs arbitrary: s)
  case Nil
  show ?case by simp
next
  case (Cons x xs)
  have b: "body x s = (None, fill x, step x s)" using Cons.prems by simp
  have t: "for_each body xs (step x s) = (None, map fill xs, fold step xs (step x s))"
    using Cons.IH Cons.prems by simp
  show ?case using b t by simp
qed

lemma parse_channel_data_records:
  assumes "list_all channel_record cs"
  shows "parse_channel_data (JList cs) s =
           (None, JList (map spec_fill_channel cs), fold spec_attach_channel cs s)"
proof -
  have "for_each parse_channel cs s =
          (None, map spec_fill_channel cs, fold spec_attach_channel cs s)"
  proof (rule for_each_records)
    fix x t
    assume "x \<in> set cs"
    then have "channel_record x" using assms by (simp add: list_all_iff)
    then show "parse_channel x t = (None, spec_fill_channel x, spec_attach_channel x t)"
      by (rule parse_channel_record)
  qed
  then show ?thesis by (simp add: parse_channel_data_def parse_data_def)
qed

lemma parse_user_data_records:
  assumes "list_all user_record us"
  shows "parse_user_data (JList us) s =
           (None, JList (map spec_fill_user us), fold spec_attach_user us s)"
proof -
  have "for_each parse_user us s =
          (None, map spec_fill_user us, fold spec_attach_user us s)"
  proof (rule for_each_records)
    fix x t
    assume "x \<in> set us"
    then have "user_record x" using assms by (simp add: list_all_iff)
    then show "parse_user x t = (None, spec_fill_user x, spec_attach_user x t)"
      by (rule parse_user_record)
  qed
  then show ?thesis by (simp add: parse_user_data_def parse_data_def)
qed

lemma spec_fill_channel_fields:
  assumes "map_of d ''id'' = Some k"
  shows "getitem (spec_fill_channel (JObj d)) ''id'' = Inr k"
    and "getitem (spec_fill_channel (JObj d)) ''name''
           = Inr (case map_of d ''name'' of None \<Rightarrow> k | Some n \<Rightarrow> n)"
    and "getitem (spec_fill_channel (JObj d)) ''members''
           = Inr (case map_of d ''members'' of None \<Rightarrow> JList [] | Some m \<Rightarrow> m)"
  using assms
  by (simp_all add: spec_fill_channel_def spec_channel_defaults_def has_key_def map_of_setitem
      Let_def split: option.split)

lemma spec_fill_user_fields:
  assumes "map_of d ''name'' = Some n"
  shows "getitem (spec_fill_user (JObj d)) ''name'' = Inr n"
    and "getitem (spec_fill_user (JObj d)) ''real_name''
           = Inr (case map_of d ''real_name'' of None \<Rightarrow> n | Some r \<Rightarrow> r)"
    and "getitem (spec_fill_user (JObj d)) ''tz''
           = Inr (case map_of d ''tz'' of None \<Rightarrow> JStr ''unknown'' | Some t \<Rightarrow> t)"
  using assms
  by (simp_all add: spec_fill_user_def spec_user_defaults_def has_key_def map_of_setitem
      Let_def split: option.split)

lemma SearchList_find_iff:
  "SearchList_find cs key \<noteq> None \<longleftrightarrow> (\<exists>c\<in>set cs. channel_id c = key \<or> channel_name c = key)"
proof (cases "List.find (\<lambda>c. channel_id c = key) cs")
  case None
  then have n: "\<not> (\<exists>c\<in>set cs. channel_id c = key)" by (auto simp: find_None_iff)
  have "SearchList_find cs key = List.find (\<lambda>c. channel_name c = key) cs"
    using None by (simp add: SearchList_find_def)
  moreover have "List.find (\<lambda>c. channel_name c = key) cs \<noteq> None
                   \<longleftrightarrow> (\<exists>c\<in>set cs. channel_name c = key)"
    by (auto simp: find_None_iff)
  ultimately show ?thesis using n by auto
next
  case (Some c)
  then have "List.find (\<lambda>c. channel_id c = key) cs \<noteq> None" by simp
  then have "\<exists>c\<in>set cs. channel_id c = key" by (auto simp: find_None_iff)
  moreover have "SearchList_find cs key \<noteq> None" using Some by (simp add: SearchList_find_def)
  ultimately show ?thesis by auto
qed

lemma spec_attach_channel_mono:
  "set (channels s) \<subseteq> set (channels (spec_attach_channel x s))"
  by (auto simp: spec_attach_channel_def split: json.split option.split)

lemma fold_spec_attach_channel_mono:
  "set (channels s) \<subseteq> set (channels (fold spec_attach_channel xs s))"
proof (induction xs arbitrary: s)
  case Nil
  show ?case by simp
next
  case (Cons x xs)
  show ?case using spec_attach_channel_mono [of s x] Cons.IH [of "spec_attach_channel x s"]
    by auto
qed

lemma spec_attach_channel_found:
  assumes "map_of d ''id'' = Some cid"
  shows "SearchList_find (channels (spec_attach_channel (JObj d) s)) cid \<noteq> None"
proof (cases "SearchList_find (channels s) cid = None")
  case True
  then have "channels (spec_attach_channel (JObj d) s) = channels s @ [spec_channel_of_record d cid]"
    using assms by (simp add: spec_attach_channel_def)
  then show ?thesis
    unfolding SearchList_find_iff by (auto simp: spec_channel_of_record_def)
next
  case False
  then have "spec_attach_channel (JObj d) s = s"
    using assms by (auto simp: spec_attach_channel_def)
  then show ?thesis using False by simp
qed

lemma fold_spec_attach_channel_found:
  assumes "JObj d \<in> set cs" and "map_of d ''id'' = Some cid"
  shows "SearchList_find (channels (fold spec_attach_channel cs s)) cid \<noteq> None"
proof -
  from assms(1) obtain pre post where cs: "cs = pre @ JObj d # post"
    by (auto simp: in_set_conv_decomp)
  let ?t = "spec_attach_channel (JObj d) (fold spec_attach_channel pre s)"
  have "SearchList_find (channels ?t) cid \<noteq> None"
    by (rule spec_attach_channel_found [OF assms(2)])
  then obtain c where c: "c \<in> set (channels ?t)" "channel_id c = cid \<or> channel_name c = cid"
    unfolding SearchList_find_iff by blast
  have "c \<in> set (channels (fold spec_attach_channel post ?t))"
    using c(1) fold_spec_attach_channel_mono [of ?t post] by blast
  then show ?thesis unfolding cs SearchList_find_iff using c(2) by auto
qed

lemma fold_spec_attach_channel_origin:
  assumes "c \<in> set (channels (fold spec_attach_channel cs s))"
  shows "c \<in> set (channels s)
         \<or> (\<exists>d cid. JObj d \<in> set cs \<and> map_of d ''id'' = Some cid \<and> c = spec_channel_of_record d cid)"
  using assms
proof (induction cs arbitrary: s)
  case Nil
  then show ?case by simp
next
  case (Cons x xs)
  from Cons.IH [of "spec_attach_channel x s"] Cons.prems
  have "c \<in> set (channels (spec_attach_channel x s))
         \<or> (\<exists>d cid. JObj d \<in> set xs \<and> map_of d ''id'' = Some cid \<and> c = spec_channel_of_record d cid)"
    by simp
  then show ?case
  proof
    assume a: "c \<in> set (channels (spec_attach_channel x s))"
    show ?thesis
    proof (cases "c \<in> set (channels s)")
      case True
      then show ?thesis by simp
    next
      case False
      with a have "\<exists>d cid. x = JObj d \<and> map_of d ''id'' = Some cid \<and> c = spec_channel_of_record d cid"
        by (auto simp: spec_attach_channel_def split: json.splits option.splits if_splits)
      then show ?thesis by auto
    qed
  next
    assume "\<exists>d cid. JObj d \<in> set xs \<and> map_of d ''id'' = Some cid \<and> c = spec_channel_of_record d cid"
    then show ?thesis by auto
  qed
qed

subsection \<open>The handshake\<close>

lemma connect_slack_websocket_server:
  "snd (connect_slack_websocket ev url s) = s
   \<or> (\<exists>ws. connect_slack_websocket ev url s = (None, s\<lparr>websocket := Some ws\<rparr>))"
  by (auto simp: connect_slack_websocket_def connect_slack_websocket_coro_def
      split: sum.split prod.split)

lemma connect_slack_websocket_frame:
  assumes "\<And>s w. f (s\<lparr>websocket := w\<rparr>) = f s"
  shows "f (snd (connect_slack_websocket ev url s)) = f s"
  using connect_slack_websocket_server [of ev url s] assms by auto

lemma rtm_connect_handshake_ok:
  assumes "api_do ev (api_requester s) (connect_call s timeout use_rtm_start kwargs) = Inr rep"
      and "status_code rep = 200"
      and "reply_json rep = Some ld"
      and "getitem ld ''ok'' = Inr ok"
      and "truthy ok"
      and "getitem ld ''url'' = Inr url"
  shows "rtm_connect ev reconnect timeout use_rtm_start kwargs s =
           (case connect_slack_websocket ev url
                   (s\<lparr>api_requester := api_requester s @ [connect_call s timeout use_rtm_start kwargs],
                      ws_url := url\<rparr>) of
              (Some e, s3) \<Rightarrow> (Some e, s3)
            | (None, s3) \<Rightarrow>
                if \<not> reconnect then parse_slack_login_data ld use_rtm_start s3 else (None, s3))"
  using assms by (simp add: rtm_connect_def Let_def)

lemma rtm_connect_after_handshake:
  assumes "api_do ev (api_requester s) (connect_call s timeout use_rtm_start kwargs) = Inr rep"
      and "status_code rep = 200"
      and "reply_json rep = Some ld"
      and "getitem ld ''ok'' = Inr ok"
      and "truthy ok"
      and "getitem ld ''url'' = Inr url"
  shows "ws_url (snd (rtm_connect ev reconnect timeout use_rtm_start kwargs s)) = url"
    and "connected (snd (rtm_connect ev reconnect timeout use_rtm_start kwargs s)) = connected s"
proof -
  let ?s2 = "s\<lparr>api_requester := api_requester s @ [connect_call s timeout use_rtm_start kwargs],
               ws_url := url\<rparr>"
  obtain r3 s3 where c: "connect_slack_websocket ev url ?s2 = (r3, s3)"
    by (cases "connect_slack_websocket ev url ?s2")
  have u3: "ws_url s3 = url"
    using connect_slack_websocket_frame [where f = ws_url and ev = ev and url = url and s = ?s2] c
    by simp
  have c3: "connected s3 = connected s"
    using connect_slack_websocket_frame [where f = connected and ev = ev and url = url and s = ?s2] c
    by simp
  have u4: "ws_url (snd (parse_slack_login_data ld use_rtm_start s3)) = url"
    using parse_slack_login_data_frame [where f = ws_url and s = s3] u3 by simp
  have c4: "connected (snd (parse_slack_login_data ld use_rtm_start s3)) = connected s"
    using parse_slack_login_data_frame [where f = connected and s = s3] c3 by simp
  have eq: "rtm_connect ev reconnect timeout use_rtm_start kwargs s =
          (case r3 of Some e \<Rightarrow> (Some e, s3)
           | None \<Rightarrow> if \<not> reconnect then parse_slack_login_data ld use_rtm_start s3
                     else (None, s3))"
    unfolding rtm_connect_handshake_ok [OF assms] c by (simp split: option.split)
  show "ws_url (snd (rtm_connect ev reconnect timeout use_rtm_start kwargs s)) = url"
    unfolding eq using u3 u4 by (simp split: option.split)
  show "connected (snd (rtm_connect ev reconnect timeout use_rtm_start kwargs s)) = connected s"
    unfolding eq using c3 c4 by (simp split: option.split)
qed

lemma rtm_connect_reconnect_server:
  "snd (rtm_connect ev True timeout use_rtm_start kwargs s) =
      s\<lparr>api_requester := api_requester s @ [connect_call s timeout use_rtm_start kwargs]\<rparr>
   \<or> (\<exists>url. snd (rtm_connect ev True timeout use_rtm_start kwargs s) =
         snd (connect_slack_websocket ev url
               (s\<lparr>api_requester := api_requester s @ [connect_call s timeout use_rtm_start kwargs],
                  ws_url := url\<rparr>)))"
proof -
  let ?call = "connect_call s timeout use_rtm_start kwargs"
  let ?s1 = "s\<lparr>api_requester := api_requester s @ [?call]\<rparr>"
  show ?thesis
  proof (cases "api_do ev (api_requester s) ?call")
    case (Inl e)
    then show ?thesis by (simp add: rtm_connect_def Let_def)
  next
    case rep: (Inr rep)
    show ?thesis
    proof (cases "status_code rep = 200")
      case False
      then show ?thesis using rep by (simp add: rtm_connect_def Let_def)
    next
      case st: True
      show ?thesis
      proof (cases "reply_json rep")
        case None
        then show ?thesis using rep st by (simp add: rtm_connect_def Let_def)
      next
        case ld: (Some ld)
        show ?thesis
        proof (cases "getitem ld ''ok''")
          case (Inl e)
          then show ?thesis using rep st ld by (simp add: rtm_connect_def Let_def)
        next
          case ok: (Inr ok)
          show ?thesis
          proof (cases "truthy ok")
            case False
            then show ?thesis using rep st ld ok by (simp add: rtm_connect_def Let_def)
          next
            case tr: True
            show ?thesis
            proof (cases "getitem ld ''url''")
              case (Inl e)
              then show ?thesis using rep st ld ok tr by (simp add: rtm_connect_def Let_def)
            next
              case (Inr url)
              have "snd (rtm_connect ev True timeout use_rtm_start kwargs s) =
                    snd (connect_slack_websocket ev url (?s1\<lparr>ws_url := url\<rparr>))"
                unfolding rtm_connect_handshake_ok [OF rep st ld ok tr Inr]
                by (simp split: prod.split option.split)
              then show ?thesis by blast
            qed
          qed
        qed
      qed
    qed
  qed
qed

lemma rtm_connect_reconnect_frame:
  assumes "\<And>s v. f (s\<lparr>api_requester := v\<rparr>) = f s"
      and "\<And>s v. f (s\<lparr>ws_url := v\<rparr>) = f s"
      and "\<And>s v. f (s\<lparr>websocket := v\<rparr>) = f s"
  shows "f (snd (rtm_connect ev True timeout use_rtm_start kwargs s)) = f s"
proof -
  from rtm_connect_reconnect_server [of ev timeout use_rtm_start kwargs s] show ?thesis
  proof (elim disjE exE)
    assume "snd (rtm_connect ev True timeout use_rtm_start kwargs s) =
      s\<lparr>api_requester := api_requester s @ [connect_call s timeout use_rtm_start kwargs]\<rparr>"
    then show ?thesis using assms(1) by simp
  next
    fix url
    assume "snd (rtm_connect ev True timeout use_rtm_start kwargs s) =
         snd (connect_slack_websocket ev url
               (s\<lparr>api_requester := api_requester s @ [connect_call s timeout use_rtm_start kwargs],
                  ws_url := url\<rparr>))"
    then show ?thesis
      using connect_slack_websocket_frame [where f = f, OF assms(3)] assms(1) assms(2) by simp
  qed
qed

lemma rtm_connect_reconnect_requests:
  "api_requester (snd (rtm_connect ev True timeout use_rtm_start kwargs s)) =
     api_requester s @ [connect_call s timeout use_rtm_start kwargs]"
proof -
  from rtm_connect_reconnect_server [of ev timeout use_rtm_start kwargs s] show ?thesis
  proof (elim disjE exE)
    assume "snd (rtm_connect ev True timeout use_rtm_start kwargs s) =
      s\<lparr>api_requester := api_requester s @ [connect_call s timeout use_rtm_start kwargs]\<rparr>"
    then show ?thesis by simp
  next
    fix url
    assume "snd (rtm_connect ev True timeout use_rtm_start kwargs s) =
         snd (connect_slack_websocket ev url
               (s\<lparr>api_requester := api_requester s @ [connect_call s timeout use_rtm_start kwargs],
                  ws_url := url\<rparr>))"
    then show ?thesis
      using connect_slack_websocket_frame [where f = api_requester] by simp
  qed
qed

subsection \<open>The users dict\<close>

lemma key_eq_norm: "key_eq a b \<longleftrightarrow> key_norm a = key_norm b"
  by (cases a; cases b) (auto simp: key_norm_def)

lemma dict_get_update_same: "dict_get (dict_update k v d) k = Some v"
  by (induction d) (simp_all add: key_eq_norm)

lemma dict_get_update_other:
  "\<not> key_eq k' k \<Longrightarrow> dict_get (dict_update k v d) k' = dict_get d k'"
  by (induction d) (auto simp: key_eq_norm)

lemma dict_update_keys:
  "dict_get d k = Some old \<Longrightarrow> map fst (dict_update k v d) = map fst d"
  by (induction d) (auto split: if_splits)

lemma spec_attach_user_other:
  assumes "\<And>d k. x = JObj d \<Longrightarrow> map_of d ''id'' = Some k \<Longrightarrow> \<not> key_eq uid k"
  shows "dict_get (users (spec_attach_user x s)) uid = dict_get (users s) uid"
  using assms
  by (auto simp: spec_attach_user_def dict_get_update_other split: json.split option.split)

lemma fold_spec_attach_user_other:
  assumes "\<And>d k. JObj d \<in> set xs \<Longrightarrow> map_of d ''id'' = Some k \<Longrightarrow> \<not> key_eq uid k"
  shows "dict_get (users (fold spec_attach_user xs s)) uid = dict_get (users s) uid"
  using assms
proof (induction xs arbitrary: s)
  case Nil
  show ?case by simp
next
  case (Cons x xs)
  have a: "dict_get (users (spec_attach_user x s)) uid = dict_get (users s) uid"
    using Cons.prems by (intro spec_attach_user_other) auto
  have "dict_get (users (fold spec_attach_user xs (spec_attach_user x s))) uid
          = dict_get (users (spec_attach_user x s)) uid"
    using Cons.prems by (intro Cons.IH) auto
  with a show ?case by simp
qed

lemma fold_spec_attach_user_last:
  assumes "us = pre @ JObj d # post"
      and "map_of d ''id'' = Some uid" and "map_of d ''name'' = Some nm"
      and "\<And>d' k. JObj d' \<in> set post \<Longrightarrow> map_of d' ''id'' = Some k \<Longrightarrow> \<not> key_eq uid k"
  shows "dict_get (users (fold spec_attach_user us s)) uid = Some (spec_user_of_record d uid nm)"
proof -
  let ?t = "spec_attach_user (JObj d) (fold spec_attach_user pre s)"
  have "dict_get (users ?t) uid = Some (spec_user_of_record d uid nm)"
    using assms(2,3) by (simp add: spec_attach_user_def dict_get_update_same)
  moreover have "dict_get (users (fold spec_attach_user post ?t)) uid = dict_get (users ?t) uid"
    using assms(4) by (intro fold_spec_attach_user_other) auto
  ultimately show ?thesis unfolding assms(1) by simp
qed

subsection \<open>Sending\<close>

lemma message_json_thread:
  "thread \<noteq> JNull \<Longrightarrow> truthy reply_broadcast \<Longrightarrow>
   message_json chan message thread reply_broadcast =
     [(''type'', JStr ''message''), (''channel'', chan), (''text'', message),
      (''thread_ts'', thread), (''reply_broadcast'', JBool True)]"
  by (simp add: message_json_def setitem_def)

lemma message_json_no_thread:
  "message_json chan message JNull reply_broadcast =
     [(''type'', JStr ''message''), (''channel'', chan), (''text'', message)]"
  by (simp add: message_json_def)

lemma send_to_websocket_working:
  assumes "websocket s = Some ws" and "send_result ws (send_attempts ws) = None"
  shows "send_to_websocket ev data s =
           (None, s\<lparr>websocket := Some (ws\<lparr>send_attempts := Suc (send_attempts ws),
                                          send_calls := send_calls ws @ [Dumps data]\<rparr>)\<rparr>)"
  using assms
  by (simp add: send_to_websocket_def try_send_def ws_send_def json_dumps_def Let_def)

section \<open>Properties of the specification\<close>

text \<open>
  C1. Non-blocking receive with no frame available. The docstring of
  \<open>_websocket_safe_read\<close> promises the empty string. When \<open>recv()\<close> reports that no
  data is there yet, the coroutine does return the empty string, but it never sets the
  future, and \<open>websocket_safe_read\<close> answers with \<open>readop.result()\<close>: the caller gets
  \<open>InvalidStateError\<close>, not the empty string. When \<open>recv()\<close> waits instead, the call
  does not return at all.
\<close>

theorem nonblocking_read_without_frames:
  "websocket_safe_read_coro None False (fresh_server\<lparr>websocket := Some idle_ws\<rparr>)
     = Some (Inr (JStr []), None, fresh_server\<lparr>websocket := Some fresh_ws\<rparr>)
   \<and> websocket_safe_read False (fresh_server\<lparr>websocket := Some idle_ws\<rparr>)
     = Some (Inl InvalidStateError, fresh_server\<lparr>websocket := Some fresh_ws\<rparr>)
   \<and> websocket_safe_read False (fresh_server\<lparr>websocket := Some fresh_ws\<rparr>) = None"
  by (simp add: websocket_safe_read_def websocket_safe_read_coro_def future_result_def
      idle_ws_def fresh_ws_def)

text \<open>
  C2 (as amended). After a connect whose request succeeded with status 200, whose
  answer has a true \<open>ok\<close> and whose stream was opened, \<open>ws_url\<close> is the \<open>url\<close> of the
  answer and \<open>websocket\<close> is the stream just opened. The \<open>connected\<close> flag is not
  assigned by \<open>rtm_connect\<close>: it keeps the value it had before the call.
\<close>

theorem rtm_connect_success:
  assumes "api_do ev (api_requester s) (connect_call s timeout use_rtm_start kwargs) = Inr rep"
      and "status_code rep = 200"
      and "reply_json rep = Some ld"
      and "getitem ld ''ok'' = Inr ok"
      and "truthy ok"
      and "getitem ld ''url'' = Inr url"
      and "proxy_settings ev (proxies s) = Inr (proxy_host, proxy_port, proxy_auth)"
      and "ws_connect ev url (JObj [(''http_proxy_host'', proxy_host),
                                    (''http_proxy_port'', proxy_port),
                                    (''http_proxy_auth'', proxy_auth)]) = Inr ws"
  shows "ws_url (snd (rtm_connect ev reconnect timeout use_rtm_start kwargs s)) = url
         \<and> websocket (snd (rtm_connect ev reconnect timeout use_rtm_start kwargs s)) = Some ws
         \<and> connected (snd (rtm_connect ev reconnect timeout use_rtm_start kwargs s)) = connected s"
proof -
  let ?s2 = "s\<lparr>api_requester := api_requester s @ [connect_call s timeout use_rtm_start kwargs],
               ws_url := url\<rparr>"
  have c: "connect_slack_websocket ev url ?s2 = (None, ?s2\<lparr>websocket := Some ws\<rparr>)"
    using assms(7,8)
    by (simp add: connect_slack_websocket_def connect_slack_websocket_coro_def)
  have w: "websocket (snd (parse_slack_login_data ld use_rtm_start (?s2\<lparr>websocket := Some ws\<rparr>)))
            = Some ws"
    using parse_slack_login_data_frame [where f = websocket and s = "?s2\<lparr>websocket := Some ws\<rparr>"]
    by simp
  have "websocket (snd (rtm_connect ev reconnect timeout use_rtm_start kwargs s)) = Some ws"
    unfolding rtm_connect_handshake_ok [OF assms(1-6)] c using w by simp
  then show ?thesis using rtm_connect_after_handshake [OF assms(1-6)] by simp
qed

theorem rtm_connect_success_witness:
  "api_do ok_env (api_requester fresh_server) (connect_call fresh_server JNull True []) = Inr ok_reply
   \<and> status_code ok_reply = 200
   \<and> reply_json ok_reply = Some snapshot
   \<and> getitem snapshot ''ok'' = Inr (JBool True)
   \<and> truthy (JBool True)
   \<and> getitem snapshot ''url'' = Inr (JStr ''wss://example.test/ws'')
   \<and> proxy_settings ok_env (proxies fresh_server) = Inr (JNull, JNull, JNull)
   \<and> ws_connect ok_env (JStr ''wss://example.test/ws'')
        (JObj [(''http_proxy_host'', JNull), (''http_proxy_port'', JNull),
               (''http_proxy_auth'', JNull)]) = Inr fresh_ws
   \<and> ws_url (snd (rtm_connect ok_env False JNull True [] fresh_server))
        = JStr ''wss://example.test/ws''
   \<and> websocket (snd (rtm_connect ok_env False JNull True [] fresh_server)) = Some fresh_ws
   \<and> connected (snd (rtm_connect ok_env False JNull True [] fresh_server))
        = connected fresh_server"
proof -
  have h1: "api_do ok_env (api_requester fresh_server) (connect_call fresh_server JNull True [])
              = Inr ok_reply"
    by (simp add: ok_env_def scripted_env_def)
  have h2: "status_code ok_reply = 200" by (simp add: ok_reply_def)
  have h3: "reply_json ok_reply = Some snapshot" by (simp add: ok_reply_def)
  have h4: "getitem snapshot ''ok'' = Inr (JBool True)" by (simp add: snapshot_def)
  have h5: "truthy (JBool True)" by simp
  have h6: "getitem snapshot ''url'' = Inr (JStr ''wss://example.test/ws'')"
    by (simp add: snapshot_def)
  have h7: "proxy_settings ok_env (proxies fresh_server) = Inr (JNull, JNull, JNull)"
    by (simp add: proxy_settings_def fresh_server_def Server_init_def)
  have h8: "ws_connect ok_env (JStr ''wss://example.test/ws'')
        (JObj [(''http_proxy_host'', JNull), (''http_proxy_port'', JNull),
               (''http_proxy_auth'', JNull)]) = Inr fresh_ws"
    by (simp add: ok_env_def scripted_env_def)
  from rtm_connect_success [OF h1 h2 h3 h4 h5 h6 h7 h8]
  show ?thesis using h1 h2 h3 h4 h6 h7 h8 by simp
qed

text \<open>
  C2 as stated fails: on a new server a connect that goes through leaves \<open>connected\<close>
  false.
\<close>

theorem rtm_connect_leaves_connected_false:
  "status_code ok_reply = 200
   \<and> getitem snapshot ''ok'' = Inr (JBool True)
   \<and> fst (rtm_connect ok_env False JNull True [] fresh_server) = None
   \<and> ws_url (snd (rtm_connect ok_env False JNull True [] fresh_server))
       = JStr ''wss://example.test/ws''
   \<and> \<not> connected (snd (rtm_connect ok_env False JNull True [] fresh_server))"
  by code_simp

text \<open>
  C3. A handshake answered with status 200 and \<open>ok: false\<close> makes \<open>rtm_connect\<close>
  raise \<open>SlackLoginError\<close>; apart from the request that was made, the server is as it
  was before, in particular \<open>connected\<close> and \<open>ws_url\<close>.
\<close>

theorem rtm_connect_not_ok:
  assumes "api_do ev (api_requester s) (connect_call s timeout use_rtm_start kwargs) = Inr rep"
      and "status_code rep = 200"
      and "reply_json rep = Some ld"
      and "getitem ld ''ok'' = Inr (JBool False)"
  shows "rtm_connect ev reconnect timeout use_rtm_start kwargs s =
           (Some SlackLoginError,
            s\<lparr>api_requester := api_requester s @ [connect_call s timeout use_rtm_start kwargs]\<rparr>)
         \<and> connected (snd (rtm_connect ev reconnect timeout use_rtm_start kwargs s)) = connected s
         \<and> ws_url (snd (rtm_connect ev reconnect timeout use_rtm_start kwargs s)) = ws_url s"
  using assms by (simp add: rtm_connect_def Let_def)

theorem rtm_connect_not_ok_witness:
  "api_do refused_env (api_requester fresh_server) (connect_call fresh_server JNull True [])
     = Inr refused_reply
   \<and> status_code refused_reply = 200
   \<and> reply_json refused_reply
       = Some (JObj [(''ok'', JBool False), (''error'', JStr ''invalid_auth'')])
   \<and> getitem (JObj [(''ok'', JBool False), (''error'', JStr ''invalid_auth'')]) ''ok''
       = Inr (JBool False)
   \<and> rtm_connect refused_env False JNull True [] fresh_server =
       (Some SlackLoginError,
        fresh_server\<lparr>api_requester :=
          api_requester fresh_server @ [connect_call fresh_server JNull True []]\<rparr>)
   \<and> connected (snd (rtm_connect refused_env False JNull True [] fresh_server)) = False
   \<and> ws_url (snd (rtm_connect refused_env False JNull True [] fresh_server)) = JNull"
proof -
  have h1: "api_do refused_env (api_requester fresh_server)
              (connect_call fresh_server JNull True []) = Inr refused_reply"
    by (simp add: refused_env_def scripted_env_def)
  have h2: "status_code refused_reply = 200" by (simp add: refused_reply_def)
  have h3: "reply_json refused_reply
              = Some (JObj [(''ok'', JBool False), (''error'', JStr ''invalid_auth'')])"
    by (simp add: refused_reply_def)
  have h4: "getitem (JObj [(''ok'', JBool False), (''error'', JStr ''invalid_auth'')]) ''ok''
              = Inr (JBool False)"
    by simp
  have f: "connected fresh_server = False \<and> ws_url fresh_server = JNull"
    by (simp add: fresh_server_def Server_init_def)
  from rtm_connect_not_ok [OF h1 h2 h3 h4, of False]
  show ?thesis using h1 h2 h3 h4 f by simp
qed

text \<open>
  C4. When the send inside \<open>send_to_websocket\<close> raises, the exception is swallowed and
  \<open>rtm_connect(reconnect=True)\<close> runs once: exactly one request, an \<open>rtm.start\<close>
  without parameters, is added to those made so far, and the call ends as that
  reconnect ends, with its exception if it raises one.
\<close>

theorem send_failure_reconnects_once:
  assumes "try_send data s = (Some e, s1)"
  shows "send_to_websocket ev data s = rtm_connect ev True JNull True [] s1
         \<and> fst (send_to_websocket ev data s) = fst (rtm_connect ev True JNull True [] s1)
         \<and> api_requester (snd (send_to_websocket ev data s)) =
             api_requester s @ [connect_call s JNull True []]"
proof -
  have eq: "send_to_websocket ev data s = rtm_connect ev True JNull True [] s1"
    using assms by (simp add: send_to_websocket_def)
  have "api_requester s1 = api_requester s \<and> token s1 = token s"
    using assms by (auto simp: try_send_def Let_def split: option.splits prod.splits)
  then have "api_requester s1 @ [connect_call s1 JNull True []] =
             api_requester s @ [connect_call s JNull True []]"
    by (simp add: connect_call_def)
  then show ?thesis using eq rtm_connect_reconnect_requests [of ev JNull True "[]" s1] by simp
qed

theorem send_failure_reconnects_once_witness:
  "try_send (JObj [(''type'', JStr ''ping'')]) (fresh_server\<lparr>websocket := Some broken_ws\<rparr>) =
     (Some (ExternalError ''connection closed''),
      fresh_server\<lparr>websocket := Some (broken_ws\<lparr>send_attempts := Suc 0\<rparr>)\<rparr>)
   \<and> send_to_websocket closed_env (JObj [(''type'', JStr ''ping'')])
        (fresh_server\<lparr>websocket := Some broken_ws\<rparr>)
       = rtm_connect closed_env True JNull True []
           (fresh_server\<lparr>websocket := Some (broken_ws\<lparr>send_attempts := Suc 0\<rparr>)\<rparr>)
   \<and> fst (send_to_websocket closed_env (JObj [(''type'', JStr ''ping'')])
              (fresh_server\<lparr>websocket := Some broken_ws\<rparr>))
       = Some (SlackConnectionError (Some ''connection refused''))
   \<and> fst (send_to_websocket ok_env (JObj [(''type'', JStr ''ping'')])
              (fresh_server\<lparr>websocket := Some broken_ws\<rparr>))
       = None
   \<and> api_requester (snd (send_to_websocket closed_env (JObj [(''type'', JStr ''ping'')])
                           (fresh_server\<lparr>websocket := Some broken_ws\<rparr>)))
       = [\<lparr>call_token = ''xoxb-1'', call_method = ''rtm.start'', call_timeout = JNull,
           call_post_data = []\<rparr>]"
proof -
  let ?ping = "JObj [(''type'', JStr ''ping'')]"
  let ?s = "fresh_server\<lparr>websocket := Some broken_ws\<rparr>"
  let ?s1 = "fresh_server\<lparr>websocket := Some (broken_ws\<lparr>send_attempts := Suc 0\<rparr>)\<rparr>"
  have h: "try_send ?ping ?s = (Some (ExternalError ''connection closed''), ?s1)"
    by (simp add: try_send_def ws_send_def broken_ws_def fresh_ws_def Let_def)
  have r1: "fst (rtm_connect closed_env True JNull True [] ?s1)
              = Some (SlackConnectionError (Some ''connection refused''))"
    by code_simp
  have r2: "fst (rtm_connect ok_env True JNull True [] ?s1) = None"
    by code_simp
  have a: "api_requester ?s @ [connect_call ?s JNull True []]
       = [\<lparr>call_token = ''xoxb-1'', call_method = ''rtm.start'', call_timeout = JNull,
           call_post_data = []\<rparr>]"
    by (simp add: connect_call_def fresh_server_def Server_init_def)
  from send_failure_reconnects_once [OF h, of closed_env]
       send_failure_reconnects_once [OF h, of ok_env]
  show ?thesis using h r1 r2 a by metis
qed

text \<open>
  C5. \<open>rtm_connect\<close> with \<open>reconnect=True\<close> leaves \<open>users\<close> and \<open>channels\<close> as they
  were, whatever the handshake answers and whichever variant of it was used.
\<close>

theorem reconnect_keeps_directory:
  "users (snd (rtm_connect ev True timeout use_rtm_start kwargs s)) = users s
   \<and> channels (snd (rtm_connect ev True timeout use_rtm_start kwargs s)) = channels s"
  using rtm_connect_reconnect_frame [where f = users]
        rtm_connect_reconnect_frame [where f = channels] by simp

theorem reconnect_keeps_directory_witness:
  "fst (rtm_connect other_env True JNull True [] populated_server) = None
   \<and> users populated_server =
       [(JStr ''U1'', \<lparr>user_name = JStr ''alice'', user_id = JStr ''U1'',
                        user_real_name = JStr ''alice'', user_tz = JStr ''unknown''\<rparr>)]
   \<and> channels populated_server =
       [\<lparr>channel_name = JStr ''C1'', channel_id = JStr ''C1'', channel_members = JList []\<rparr>]
   \<and> users (snd (rtm_connect other_env True JNull True [] populated_server))
       = users populated_server
   \<and> channels (snd (rtm_connect other_env True JNull True [] populated_server))
       = channels populated_server"
proof -
  have r: "fst (rtm_connect other_env True JNull True [] populated_server) = None"
    by code_simp
  have u: "users populated_server =
       [(JStr ''U1'', \<lparr>user_name = JStr ''alice'', user_id = JStr ''U1'',
                        user_real_name = JStr ''alice'', user_tz = JStr ''unknown''\<rparr>)]"
    by code_simp
  have c: "channels populated_server =
       [\<lparr>channel_name = JStr ''C1'', channel_id = JStr ''C1'', channel_members = JList []\<rparr>]"
    by code_simp
  from reconnect_keeps_directory [of other_env JNull True "[]" populated_server]
  show ?thesis using r u c by blast
qed

text \<open>
  C6. \<open>attach_channel\<close> with an id that a channel of the directory already has
  changes nothing: the channel keeps its name and members and no entry is added.
\<close>

theorem attach_channel_existing_id:
  assumes "cid \<in> channel_id ` set (channels s)"
  shows "attach_channel name cid members s = s"
proof -
  from assms have "List.find (\<lambda>c. channel_id c = cid) (channels s) \<noteq> None"
    by (auto simp: find_None_iff)
  then have "SearchList_find (channels s) cid \<noteq> None"
    by (auto simp: SearchList_find_def split: option.split)
  then show ?thesis by (simp add: attach_channel_def Let_def)
qed

theorem attach_channel_existing_id_witness:
  "JStr ''C1'' \<in> channel_id ` set (channels (attach_channel (JStr ''general'') (JStr ''C1'') JNull fresh_server))
   \<and> attach_channel (JStr ''renamed'') (JStr ''C1'') (JList [JStr ''U1''])
         (attach_channel (JStr ''general'') (JStr ''C1'') JNull fresh_server)
       = attach_channel (JStr ''general'') (JStr ''C1'') JNull fresh_server
   \<and> channels (attach_channel (JStr ''general'') (JStr ''C1'') JNull fresh_server)
       = [\<lparr>channel_name = JStr ''general'', channel_id = JStr ''C1'',
           channel_members = JList []\<rparr>]"
proof -
  have c: "channels (attach_channel (JStr ''general'') (JStr ''C1'') JNull fresh_server)
       = [\<lparr>channel_name = JStr ''general'', channel_id = JStr ''C1'',
           channel_members = JList []\<rparr>]"
    by (simp add: attach_channel_def SearchList_find_def Channel_def fresh_server_def
        Server_init_def)
  have h: "JStr ''C1'' \<in> channel_id ` set (channels (attach_channel (JStr ''general'') (JStr ''C1'') JNull fresh_server))"
    unfolding c by simp
  from attach_channel_existing_id [OF h, of "JStr ''renamed''" "JList [JStr ''U1'']"]
  show ?thesis using h c by blast
qed

text \<open>
  C7. \<open>attach_user\<close> with an id that is already a key of \<open>users\<close> replaces the entry:
  a lookup by that id gives the name, real name and timezone of this call, the keys
  are the same as before and the entries under other keys are untouched.
\<close>

theorem attach_user_existing_id:
  assumes "hashable uid" and "dict_get (users s) uid = Some old"
  shows "fst (attach_user name uid real_name tz s) = None
         \<and> dict_get (users (snd (attach_user name uid real_name tz s))) uid
             = Some \<lparr>user_name = name, user_id = uid, user_real_name = real_name, user_tz = tz\<rparr>
         \<and> map fst (users (snd (attach_user name uid real_name tz s))) = map fst (users s)
         \<and> (\<forall>k. \<not> key_eq k uid \<longrightarrow>
               dict_get (users (snd (attach_user name uid real_name tz s))) k
                 = dict_get (users s) k)"
  using assms
  by (simp add: attach_user_def User_def dict_get_update_same dict_get_update_other
      dict_update_keys)

theorem attach_user_existing_id_witness:
  "hashable (JStr ''U1'')
   \<and> dict_get (users (snd (attach_user (JStr ''a'') (JStr ''U1'') (JStr ''A'') (JStr ''UTC'')
                             fresh_server))) (JStr ''U1'')
       = Some \<lparr>user_name = JStr ''a'', user_id = JStr ''U1'', user_real_name = JStr ''A'',
               user_tz = JStr ''UTC''\<rparr>
   \<and> dict_get (users (snd (attach_user (JStr ''b'') (JStr ''U1'') (JStr ''B'') (JStr ''CET'')
             (snd (attach_user (JStr ''a'') (JStr ''U1'') (JStr ''A'') (JStr ''UTC'')
                     fresh_server))))) (JStr ''U1'')
       = Some \<lparr>user_name = JStr ''b'', user_id = JStr ''U1'', user_real_name = JStr ''B'',
               user_tz = JStr ''CET''\<rparr>
   \<and> map fst (users (snd (attach_user (JStr ''b'') (JStr ''U1'') (JStr ''B'') (JStr ''CET'')
             (snd (attach_user (JStr ''a'') (JStr ''U1'') (JStr ''A'') (JStr ''UTC'')
                     fresh_server))))) = [JStr ''U1'']"
proof -
  let ?s1 = "snd (attach_user (JStr ''a'') (JStr ''U1'') (JStr ''A'') (JStr ''UTC'') fresh_server)"
  have u: "users ?s1 = [(JStr ''U1'', \<lparr>user_name = JStr ''a'', user_id = JStr ''U1'',
                          user_real_name = JStr ''A'', user_tz = JStr ''UTC''\<rparr>)]"
    by (simp add: attach_user_def User_def fresh_server_def Server_init_def)
  have h1: "hashable (JStr ''U1'')" by simp
  have h2: "dict_get (users ?s1) (JStr ''U1'')
       = Some \<lparr>user_name = JStr ''a'', user_id = JStr ''U1'', user_real_name = JStr ''A'',
               user_tz = JStr ''UTC''\<rparr>"
    unfolding u by simp
  from attach_user_existing_id [OF h1 h2, of "JStr ''b''" "JStr ''B''" "JStr ''CET''"]
  show ?thesis using h1 h2 u by simp
qed

text \<open>
  C8. Parsing the snapshot fills in what is missing in every record and does not
  raise. On one record: a channel record with an \<open>id\<close> that the directory does not
  know yet becomes a channel whose name is the record's \<open>name\<close>, or the id without one,
  and whose members are the record's \<open>members\<close>, or the empty list without them; a
  user record with an \<open>id\<close> and a \<open>name\<close> becomes a user whose real name is the
  record's \<open>real_name\<close>, or the name without one, and whose timezone is the record's
  \<open>tz\<close>, or \<open>unknown\<close> without one. On a list of records, \<open>parse_channel_data\<close> and
  \<open>parse_user_data\<close> return without an exception, hand back every record with its
  defaults written in, and leave the server that attaching the records one after the
  other, each with its defaults, gives. So afterwards the id of every channel record
  is found in the directory, every channel that was added is the channel of one of the
  records, and every user record that no later record of the list overrides is stored
  under its id with its defaults.
\<close>

theorem snapshot_defaults:
  assumes "map_of c ''id'' = Some cid"
      and "map_of u ''id'' = Some uid" and "hashable uid" and "map_of u ''name'' = Some nm"
      and "list_all channel_record cs" and "list_all user_record us"
  shows "fst (parse_channel (JObj c) s) = None
       \<and> channels (snd (snd (parse_channel (JObj c) s))) =
           (if SearchList_find (channels s) cid = None
            then channels s @
                 [\<lparr>channel_name = (case map_of c ''name'' of None \<Rightarrow> cid | Some n \<Rightarrow> n),
                   channel_id = cid,
                   channel_members = (case map_of c ''members'' of
                                        None \<Rightarrow> JList []
                                      | Some m \<Rightarrow> if m = JNull then JList [] else m)\<rparr>]
            else channels s)
       \<and> fst (parse_user (JObj u) s) = None
       \<and> dict_get (users (snd (snd (parse_user (JObj u) s)))) uid =
           Some \<lparr>user_name = nm, user_id = uid,
                 user_real_name = (case map_of u ''real_name'' of None \<Rightarrow> nm | Some r \<Rightarrow> r),
                 user_tz = (case map_of u ''tz'' of None \<Rightarrow> JStr ''unknown'' | Some t \<Rightarrow> t)\<rparr>
       \<and> fst (parse_channel_data (JList cs) s) = None
       \<and> fst (parse_user_data (JList us) s) = None
       \<and> parse_channel_data (JList cs) s =
           (None, JList (map spec_fill_channel cs), fold spec_attach_channel cs s)
       \<and> parse_user_data (JList us) s =
           (None, JList (map spec_fill_user us), fold spec_attach_user us s)
       \<and> (\<forall>d k. JObj d \<in> set cs \<longrightarrow> map_of d ''id'' = Some k \<longrightarrow>
             getitem (spec_fill_channel (JObj d)) ''name''
               = Inr (case map_of d ''name'' of None \<Rightarrow> k | Some n \<Rightarrow> n)
           \<and> getitem (spec_fill_channel (JObj d)) ''members''
               = Inr (case map_of d ''members'' of None \<Rightarrow> JList [] | Some m \<Rightarrow> m)
           \<and> SearchList_find (channels (snd (snd (parse_channel_data (JList cs) s)))) k \<noteq> None)
       \<and> (\<forall>ch \<in> set (channels (snd (snd (parse_channel_data (JList cs) s)))).
             ch \<in> set (channels s)
             \<or> (\<exists>d k. JObj d \<in> set cs \<and> map_of d ''id'' = Some k \<and> ch = spec_channel_of_record d k))
       \<and> (\<forall>d n. JObj d \<in> set us \<longrightarrow> map_of d ''name'' = Some n \<longrightarrow>
             getitem (spec_fill_user (JObj d)) ''real_name''
               = Inr (case map_of d ''real_name'' of None \<Rightarrow> n | Some r \<Rightarrow> r)
           \<and> getitem (spec_fill_user (JObj d)) ''tz''
               = Inr (case map_of d ''tz'' of None \<Rightarrow> JStr ''unknown'' | Some t \<Rightarrow> t))
       \<and> (\<forall>pre d post k n.
             us = pre @ JObj d # post \<longrightarrow> map_of d ''id'' = Some k \<longrightarrow> map_of d ''name'' = Some n \<longrightarrow>
             (\<forall>d' k'. JObj d' \<in> set post \<longrightarrow> map_of d' ''id'' = Some k' \<longrightarrow> \<not> key_eq k k') \<longrightarrow>
             dict_get (users (snd (snd (parse_user_data (JList us) s)))) k
               = Some (spec_user_of_record d k n))"
proof -
  have c1: "fst (parse_channel (JObj c) s) = None"
    by (simp add: parse_channel_with_id [OF assms(1)])
  have c2: "channels (snd (snd (parse_channel (JObj c) s))) =
           (if SearchList_find (channels s) cid = None
            then channels s @
                 [\<lparr>channel_name = (case map_of c ''name'' of None \<Rightarrow> cid | Some n \<Rightarrow> n),
                   channel_id = cid,
                   channel_members = (case map_of c ''members'' of
                                        None \<Rightarrow> JList []
                                      | Some m \<Rightarrow> if m = JNull then JList [] else m)\<rparr>]
            else channels s)"
    by (simp add: parse_channel_with_id [OF assms(1)] attach_channel_def Channel_def
        split: option.split)
  have u1: "fst (parse_user (JObj u) s) = None"
    using assms(3) by (simp add: parse_user_complete [OF assms(2) assms(4)] attach_user_def)
  have u2: "dict_get (users (snd (snd (parse_user (JObj u) s)))) uid =
           Some \<lparr>user_name = nm, user_id = uid,
                 user_real_name = (case map_of u ''real_name'' of None \<Rightarrow> nm | Some r \<Rightarrow> r),
                 user_tz = (case map_of u ''tz'' of None \<Rightarrow> JStr ''unknown'' | Some t \<Rightarrow> t)\<rparr>"
    using assms(3)
    by (simp add: parse_user_complete [OF assms(2) assms(4)] attach_user_def User_def
        dict_get_update_same)
  have lc: "parse_channel_data (JList cs) s =
           (None, JList (map spec_fill_channel cs), fold spec_attach_channel cs s)"
    by (rule parse_channel_data_records [OF assms(5)])
  have lu: "parse_user_data (JList us) s =
           (None, JList (map spec_fill_user us), fold spec_attach_user us s)"
    by (rule parse_user_data_records [OF assms(6)])
  have l1: "fst (parse_channel_data (JList cs) s) = None" by (simp add: lc)
  have l2: "fst (parse_user_data (JList us) s) = None" by (simp add: lu)
  have k1: "\<forall>d k. JObj d \<in> set cs \<longrightarrow> map_of d ''id'' = Some k \<longrightarrow>
             getitem (spec_fill_channel (JObj d)) ''name''
               = Inr (case map_of d ''name'' of None \<Rightarrow> k | Some n \<Rightarrow> n)
           \<and> getitem (spec_fill_channel (JObj d)) ''members''
               = Inr (case map_of d ''members'' of None \<Rightarrow> JList [] | Some m \<Rightarrow> m)
           \<and> SearchList_find (channels (snd (snd (parse_channel_data (JList cs) s)))) k \<noteq> None"
    unfolding lc
    using spec_fill_channel_fields(2,3) fold_spec_attach_channel_found [of _ cs _ s]
    by simp
  have k2: "\<forall>ch \<in> set (channels (snd (snd (parse_channel_data (JList cs) s)))).
             ch \<in> set (channels s)
             \<or> (\<exists>d k. JObj d \<in> set cs \<and> map_of d ''id'' = Some k \<and> ch = spec_channel_of_record d k)"
    unfolding lc using fold_spec_attach_channel_origin [of _ cs s] by simp
  have k3: "\<forall>d n. JObj d \<in> set us \<longrightarrow> map_of d ''name'' = Some n \<longrightarrow>
             getitem (spec_fill_user (JObj d)) ''real_name''
               = Inr (case map_of d ''real_name'' of None \<Rightarrow> n | Some r \<Rightarrow> r)
           \<and> getitem (spec_fill_user (JObj d)) ''tz''
               = Inr (case map_of d ''tz'' of None \<Rightarrow> JStr ''unknown'' | Some t \<Rightarrow> t)"
    using spec_fill_user_fields(2,3) by simp
  have k4: "\<forall>pre d post k n.
             us = pre @ JObj d # post \<longrightarrow> map_of d ''id'' = Some k \<longrightarrow> map_of d ''name'' = Some n \<longrightarrow>
             (\<forall>d' k'. JObj d' \<in> set post \<longrightarrow> map_of d' ''id'' = Some k' \<longrightarrow> \<not> key_eq k k') \<longrightarrow>
             dict_get (users (snd (snd (parse_user_data (JList us) s)))) k
               = Some (spec_user_of_record d k n)"
  proof (intro allI impI)
    fix pre d post k n
    assume a: "us = pre @ JObj d # post" "map_of d ''id'' = Some k" "map_of d ''name'' = Some n"
       "\<forall>d' k'. JObj d' \<in> set post \<longrightarrow> map_of d' ''id'' = Some k' \<longrightarrow> \<not> key_eq k k'"
    have "dict_get (users (fold spec_attach_user us s)) k = Some (spec_user_of_record d k n)"
      using a(4) by (intro fold_spec_attach_user_last [OF a(1) a(2) a(3)]) blast
    then show "dict_get (users (snd (snd (parse_user_data (JList us) s)))) k
               = Some (spec_user_of_record d k n)"
      by (simp add: lu)
  qed
  show ?thesis
    using c1 c2 u1 u2 l1 l2 lc lu k1 k2 k3 k4 by (intro conjI)
qed

theorem snapshot_defaults_witness:
  "map_of [(''id'', JStr ''C1'')] ''id'' = Some (JStr ''C1'')
   \<and> map_of [(''id'', JStr ''U1''), (''name'', JStr ''alice'')] ''id'' = Some (JStr ''U1'')
   \<and> hashable (JStr ''U1'')
   \<and> map_of [(''id'', JStr ''U1''), (''name'', JStr ''alice'')] ''name'' = Some (JStr ''alice'')
   \<and> list_all channel_record two_channel_records
   \<and> list_all user_record two_user_records
   \<and> fst (parse_channel (JObj [(''id'', JStr ''C1'')]) fresh_server) = None
   \<and> channels (snd (snd (parse_channel (JObj [(''id'', JStr ''C1'')]) fresh_server)))
       = [\<lparr>channel_name = JStr ''C1'', channel_id = JStr ''C1'', channel_members = JList []\<rparr>]
   \<and> fst (parse_user (JObj [(''id'', JStr ''U1''), (''name'', JStr ''alice'')]) fresh_server)
       = None
   \<and> dict_get (users (snd (snd (parse_user
          (JObj [(''id'', JStr ''U1''), (''name'', JStr ''alice'')]) fresh_server))))
        (JStr ''U1'')
       = Some \<lparr>user_name = JStr ''alice'', user_id = JStr ''U1'',
               user_real_name = JStr ''alice'', user_tz = JStr ''unknown''\<rparr>
   \<and> fst (parse_channel_data (JList two_channel_records) fresh_server) = None
   \<and> fst (snd (parse_channel_data (JList two_channel_records) fresh_server))
       = JList [JObj [(''id'', JStr ''C1''), (''name'', JStr ''C1''), (''members'', JList [])],
                JObj [(''id'', JStr ''C2''), (''name'', JStr ''random''),
                      (''members'', JList [JStr ''U1''])]]
   \<and> channels (snd (snd (parse_channel_data (JList two_channel_records) fresh_server)))
       = [\<lparr>channel_name = JStr ''C1'', channel_id = JStr ''C1'', channel_members = JList []\<rparr>,
          \<lparr>channel_name = JStr ''random'', channel_id = JStr ''C2'',
            channel_members = JList [JStr ''U1'']\<rparr>]
   \<and> fst (parse_user_data (JList two_user_records) fresh_server) = None
   \<and> fst (snd (parse_user_data (JList two_user_records) fresh_server))
       = JList [JObj [(''id'', JStr ''U1''), (''name'', JStr ''alice''),
                      (''tz'', JStr ''unknown''), (''real_name'', JStr ''alice'')],
                JObj [(''id'', JStr ''U2''), (''name'', JStr ''bob''),
                      (''real_name'', JStr ''Bob B''), (''tz'', JStr ''CET'')]]
   \<and> users (snd (snd (parse_user_data (JList two_user_records) fresh_server)))
       = [(JStr ''U1'', \<lparr>user_name = JStr ''alice'', user_id = JStr ''U1'',
                         user_real_name = JStr ''alice'', user_tz = JStr ''unknown''\<rparr>),
          (JStr ''U2'', \<lparr>user_name = JStr ''bob'', user_id = JStr ''U2'',
                         user_real_name = JStr ''Bob B'', user_tz = JStr ''CET''\<rparr>)]"
proof -
  have h1: "map_of [(''id'', JStr ''C1'')] ''id'' = Some (JStr ''C1'')" by simp
  have h2: "map_of [(''id'', JStr ''U1''), (''name'', JStr ''alice'')] ''id'' = Some (JStr ''U1'')"
    by simp
  have h3: "hashable (JStr ''U1'')" by simp
  have h4: "map_of [(''id'', JStr ''U1''), (''name'', JStr ''alice'')] ''name''
              = Some (JStr ''alice'')"
    by simp
  have h5: "list_all channel_record two_channel_records"
    by (simp add: two_channel_records_def channel_record_def has_key_def)
  have h6: "list_all user_record two_user_records"
    by (simp add: two_user_records_def user_record_def has_key_def)
  have f: "channels fresh_server = [] \<and> users fresh_server = []"
    by (simp add: fresh_server_def Server_init_def)
  note th = snapshot_defaults [OF h1 h2 h3 h4 h5 h6, of fresh_server]
  from th have r1: "fst (parse_channel (JObj [(''id'', JStr ''C1'')]) fresh_server) = None"
    by (rule conjunct1)
  from th have r2: "channels (snd (snd (parse_channel (JObj [(''id'', JStr ''C1'')]) fresh_server)))
       = [\<lparr>channel_name = JStr ''C1'', channel_id = JStr ''C1'', channel_members = JList []\<rparr>]"
    using f by (simp add: SearchList_find_def)
  from th have r3: "fst (parse_user (JObj [(''id'', JStr ''U1''), (''name'', JStr ''alice'')])
                         fresh_server) = None"
    by simp
  from th have r4: "dict_get (users (snd (snd (parse_user
          (JObj [(''id'', JStr ''U1''), (''name'', JStr ''alice'')]) fresh_server))))
        (JStr ''U1'')
       = Some \<lparr>user_name = JStr ''alice'', user_id = JStr ''U1'',
               user_real_name = JStr ''alice'', user_tz = JStr ''unknown''\<rparr>"
    by simp
  from th have lc: "parse_channel_data (JList two_channel_records) fresh_server =
           (None, JList (map spec_fill_channel two_channel_records),
            fold spec_attach_channel two_channel_records fresh_server)"
    by simp
  from th have lu: "parse_user_data (JList two_user_records) fresh_server =
           (None, JList (map spec_fill_user two_user_records),
            fold spec_attach_user two_user_records fresh_server)"
    by simp
  have v1: "map spec_fill_channel two_channel_records
       = [JObj [(''id'', JStr ''C1''), (''name'', JStr ''C1''), (''members'', JList [])],
          JObj [(''id'', JStr ''C2''), (''name'', JStr ''random''),
                (''members'', JList [JStr ''U1''])]]"
    by code_simp
  have v2: "channels (fold spec_attach_channel two_channel_records fresh_server)
       = [\<lparr>channel_name = JStr ''C1'', channel_id = JStr ''C1'', channel_members = JList []\<rparr>,
          \<lparr>channel_name = JStr ''random'', channel_id = JStr ''C2'',
            channel_members = JList [JStr ''U1'']\<rparr>]"
    by code_simp
  have v3: "map spec_fill_user two_user_records
       = [JObj [(''id'', JStr ''U1''), (''name'', JStr ''alice''),
                (''tz'', JStr ''unknown''), (''real_name'', JStr ''alice'')],
          JObj [(''id'', JStr ''U2''), (''name'', JStr ''bob''),
                (''real_name'', JStr ''Bob B''), (''tz'', JStr ''CET'')]]"
    by code_simp
  have v4: "users (fold spec_attach_user two_user_records fresh_server)
       = [(JStr ''U1'', \<lparr>user_name = JStr ''alice'', user_id = JStr ''U1'',
                         user_real_name = JStr ''alice'', user_tz = JStr ''unknown''\<rparr>),
          (JStr ''U2'', \<lparr>user_name = JStr ''bob'', user_id = JStr ''U2'',
                         user_real_name = JStr ''Bob B'', user_tz = JStr ''CET''\<rparr>)]"
    by code_simp
  show ?thesis
    using h1 h2 h3 h4 h5 h6 r1 r2 r3 r4 by (simp add: lc lu v1 v2 v3 v4)
qed

text \<open>
  C9. With a thread id and a true \<open>reply_broadcast\<close>, \<open>rtm_send_message\<close> builds
  \<open>type\<close>, \<open>channel\<close>, \<open>text\<close>, \<open>thread_ts\<close> and \<open>reply_broadcast: true\<close>; without a
  thread id it builds \<open>type\<close>, \<open>channel\<close> and \<open>text\<close> only, whatever \<open>reply_broadcast\<close>
  is. On a websocket whose \<open>send\<close> returns, that dict is what is serialised and sent.
\<close>

theorem rtm_send_message_frame:
  assumes "thread \<noteq> JNull" and "truthy reply_broadcast"
      and "websocket s = Some ws" and "send_result ws (send_attempts ws) = None"
  shows "message_json chan message thread reply_broadcast =
           [(''type'', JStr ''message''), (''channel'', chan), (''text'', message),
            (''thread_ts'', thread), (''reply_broadcast'', JBool True)]
       \<and> message_json chan message JNull any_broadcast =
           [(''type'', JStr ''message''), (''channel'', chan), (''text'', message)]
       \<and> rtm_send_message ev chan message thread reply_broadcast s =
           (None, s\<lparr>websocket := Some (ws\<lparr>send_attempts := Suc (send_attempts ws),
              send_calls := send_calls ws @
                [Dumps (JObj [(''type'', JStr ''message''), (''channel'', chan),
                              (''text'', message), (''thread_ts'', thread),
                              (''reply_broadcast'', JBool True)])]\<rparr>)\<rparr>)
       \<and> rtm_send_message ev chan message JNull any_broadcast s =
           (None, s\<lparr>websocket := Some (ws\<lparr>send_attempts := Suc (send_attempts ws),
              send_calls := send_calls ws @
                [Dumps (JObj [(''type'', JStr ''message''), (''channel'', chan),
                              (''text'', message)])]\<rparr>)\<rparr>)"
  using message_json_thread [OF assms(1,2)] message_json_no_thread
    send_to_websocket_working [OF assms(3,4)]
  by (simp add: rtm_send_message_def)

theorem rtm_send_message_frame_witness:
  "JStr ''100.1'' \<noteq> JNull
   \<and> truthy (JBool True)
   \<and> websocket (fresh_server\<lparr>websocket := Some fresh_ws\<rparr>) = Some fresh_ws
   \<and> send_result fresh_ws (send_attempts fresh_ws) = None
   \<and> message_json (JStr ''C1'') (JStr ''hi'') (JStr ''100.1'') (JBool True) =
           [(''type'', JStr ''message''), (''channel'', JStr ''C1''), (''text'', JStr ''hi''),
            (''thread_ts'', JStr ''100.1''), (''reply_broadcast'', JBool True)]
   \<and> message_json (JStr ''C1'') (JStr ''hi'') JNull (JBool True) =
           [(''type'', JStr ''message''), (''channel'', JStr ''C1''), (''text'', JStr ''hi'')]
   \<and> rtm_send_message ok_env (JStr ''C1'') (JStr ''hi'') (JStr ''100.1'') (JBool True)
         (fresh_server\<lparr>websocket := Some fresh_ws\<rparr>) =
           (None, fresh_server\<lparr>websocket := Some (fresh_ws\<lparr>send_attempts := Suc 0,
              send_calls :=
                [Dumps (JObj [(''type'', JStr ''message''), (''channel'', JStr ''C1''),
                              (''text'', JStr ''hi''), (''thread_ts'', JStr ''100.1''),
                              (''reply_broadcast'', JBool True)])]\<rparr>)\<rparr>)
   \<and> rtm_send_message ok_env (JStr ''C1'') (JStr ''hi'') JNull (JBool True)
         (fresh_server\<lparr>websocket := Some fresh_ws\<rparr>) =
           (None, fresh_server\<lparr>websocket := Some (fresh_ws\<lparr>send_attempts := Suc 0,
              send_calls :=
                [Dumps (JObj [(''type'', JStr ''message''), (''channel'', JStr ''C1''),
                              (''text'', JStr ''hi'')])]\<rparr>)\<rparr>)"
proof -
  have h1: "JStr ''100.1'' \<noteq> JNull" by simp
  have h2: "truthy (JBool True)" by simp
  have h3: "websocket (fresh_server\<lparr>websocket := Some fresh_ws\<rparr>) = Some fresh_ws" by simp
  have h4: "send_result fresh_ws (send_attempts fresh_ws) = None" by (simp add: fresh_ws_def)
  have f: "send_attempts fresh_ws = 0 \<and> send_calls fresh_ws = []" by (simp add: fresh_ws_def)
  from rtm_send_message_frame [OF h1 h2 h3 h4, of "JStr ''C1''" "JStr ''hi''" "JBool True" ok_env]
  show ?thesis using h1 h2 h4 f by simp
qed

text \<open>
  C10. \<open>rtm_connect\<close> stores the new url before it opens the stream: when the
  handshake is fine and opening the stream fails, the call raises
  \<open>SlackConnectionError\<close> with the text of the cause and \<open>ws_url\<close> is already the new
  url.
\<close>

theorem rtm_connect_open_failure:
  assumes "api_do ev (api_requester s) (connect_call s timeout use_rtm_start kwargs) = Inr rep"
      and "status_code rep = 200"
      and "reply_json rep = Some ld"
      and "getitem ld ''ok'' = Inr ok"
      and "truthy ok"
      and "getitem ld ''url'' = Inr url"
      and "proxy_settings ev (proxies s) = Inr (proxy_host, proxy_port, proxy_auth)"
      and "ws_connect ev url (JObj [(''http_proxy_host'', proxy_host),
                                    (''http_proxy_port'', proxy_port),
                                    (''http_proxy_auth'', proxy_auth)]) = Inl m"
  shows "rtm_connect ev reconnect timeout use_rtm_start kwargs s =
           (Some (SlackConnectionError (Some m)),
            s\<lparr>api_requester := api_requester s @ [connect_call s timeout use_rtm_start kwargs],
               ws_url := url\<rparr>)"
  unfolding rtm_connect_handshake_ok [OF assms(1-6)]
  using assms(7,8)
  by (simp add: connect_slack_websocket_def connect_slack_websocket_coro_def)

theorem rtm_connect_open_failure_witness:
  "api_do closed_env (api_requester fresh_server) (connect_call fresh_server JNull True [])
     = Inr ok_reply
   \<and> status_code ok_reply = 200
   \<and> reply_json ok_reply = Some snapshot
   \<and> getitem snapshot ''ok'' = Inr (JBool True)
   \<and> truthy (JBool True)
   \<and> getitem snapshot ''url'' = Inr (JStr ''wss://example.test/ws'')
   \<and> proxy_settings closed_env (proxies fresh_server) = Inr (JNull, JNull, JNull)
   \<and> ws_connect closed_env (JStr ''wss://example.test/ws'')
        (JObj [(''http_proxy_host'', JNull), (''http_proxy_port'', JNull),
               (''http_proxy_auth'', JNull)]) = Inl ''connection refused''
   \<and> ws_url fresh_server = JNull
   \<and> rtm_connect closed_env False JNull True [] fresh_server =
       (Some (SlackConnectionError (Some ''connection refused'')),
        fresh_server\<lparr>api_requester :=
            api_requester fresh_server @ [connect_call fresh_server JNull True []],
          ws_url := JStr ''wss://example.test/ws''\<rparr>)"
proof -
  have h1: "api_do closed_env (api_requester fresh_server)
              (connect_call fresh_server JNull True []) = Inr ok_reply"
    by (simp add: closed_env_def scripted_env_def)
  have h2: "status_code ok_reply = 200" by (simp add: ok_reply_def)
  have h3: "reply_json ok_reply = Some snapshot" by (simp add: ok_reply_def)
  have h4: "getitem snapshot ''ok'' = Inr (JBool True)" by (simp add: snapshot_def)
  have h5: "truthy (JBool True)" by simp
  have h6: "getitem snapshot ''url'' = Inr (JStr ''wss://example.test/ws'')"
    by (simp add: snapshot_def)
  have h7: "proxy_settings closed_env (proxies fresh_server) = Inr (JNull, JNull, JNull)"
    by (simp add: proxy_settings_def fresh_server_def Server_init_def)
  have h8: "ws_connect closed_env (JStr ''wss://example.test/ws'')
        (JObj [(''http_proxy_host'', JNull), (''http_proxy_port'', JNull),
               (''http_proxy_auth'', JNull)]) = Inl ''connection refused''"
    by (simp add: closed_env_def scripted_env_def)
  have f: "ws_url fresh_server = JNull" by (simp add: fresh_server_def Server_init_def)
  from rtm_connect_open_failure [OF h1 h2 h3 h4 h5 h6 h7 h8, of False]
  show ?thesis using h1 h2 h3 h4 h6 h7 h8 f by simp
qed

end
